theory Spec2Isabelle
  imports Main "HOL-Library.Word" "HOL-Library.AList"
begin

section \<open>The debugger notebook as a state-passing program\<close>

text \<open>
  The repository is one notebook, \<^verbatim>\<open>debugger.ipynb\<close>. Its code cells are embedded one by
  one, under their position in the notebook (cell 9 is the dataset cell, cell 17 the upload
  cell, and so on). A cell is a function from the world to a result and a new world; an
  exception is the result \<open>Inl e\<close>, and the world it was raised in is kept, as the kernel
  keeps its namespace when a cell fails.

  The cells before cell 9 install packages and create the session and the execution role;
  they are the environment of this development (\<open>execution_role\<close> and the calls of the
  record \<open>env\<close> belong to that session). Every operation the notebook delegates to a
  library or a service (Keras, the SageMaker SDK, boto3, smdebug, the shell) is a field of
  \<open>env\<close>: a function of the remote state that returns a value or an exception.
\<close>

subsection \<open>Values\<close>

type_synonym uint8 = "8 word"
type_synonym image = "uint8 list list"

text \<open>The arrays the Keras loader returns: a sequence of images, a sequence of labels.\<close>

datatype ndarray = Images "image list" | Labels "uint8 list"


text \<open>An \<^verbatim>\<open>.npz\<close> archive holds named arrays, in the order of the keyword arguments.\<close>

type_synonym archive = "(string \<times> ndarray) list"

datatype content = Npz archive | Blob "uint8 list"

text \<open>
  The Python values of a boto3 response and of the cells' outputs. A dictionary is an
  association list with string keys; \<open>PTime\<close> is a \<^verbatim>\<open>datetime\<close>, \<open>PFloat\<close> the bits of a
  float. An object of a library class (a trial, a tensor) is known by its identity only.
\<close>

datatype pyval =
    PNone
  | PBool bool
  | PInt int
  | PFloat "64 word"
  | PStr string
  | PTime int
  | PList "pyval list"
  | PDict "(string \<times> pyval) list"

type_synonym pydict = "(string \<times> pyval) list"

type_synonym obj = nat

datatype shown = Out pyval | Repr obj

datatype error =
    NameError string
  | KeyError string
  | TypeError
  | AttributeError string
  | FileExistsError string
  | FileNotFoundError string
  | IsADirectoryError string
  | OSError string
  | CalledProcessError string
  | ClientError string
  | Exception string

subsection \<open>The job specification and the estimator\<close>

record job_spec =
  entry_point :: string
  role :: string
  train_instance_count :: nat
  train_instance_type :: string
  framework_version :: string
  script_mode :: bool
  py_version :: string
  rules :: "string list"

record estimator =
  spec :: job_spec
  latest_training_job :: "string option"

subsection \<open>Operations on the outside world\<close>

datatype event =
    Load_data
  | Makedirs string
  | Savez string
  | Sh string "string list"
  | Upload_data string string
  | TensorFlow_init job_spec
  | Fit "(string \<times> string) list"
  | Describe_training_job string
  | Create_trial string
  | Tensor_names obj
  | Tensor obj string
  | Values obj

type_synonym ('a, 'r) extern = "'r \<Rightarrow> (error + 'a) \<times> 'r"

type_synonym batch = "image list \<times> uint8 list"

text \<open>
  \<open>io_error\<close> is the operating system's refusal to create a directory or to open a file for
  writing at a path (permissions), when there is one: nothing is created then.
  \<open>write_error\<close> is the failure of a write to a file that has been opened (a full disk),
  when there is one, with the bytes that were written before it: the file has been created
  or truncated and is left with these bytes. \<open>fit\<close> returns the exception it raised, if any, and the name of
  the training job it attached to the estimator, if any (\<^verbatim>\<open>fit\<close> may have set
  \<^verbatim>\<open>latest_training_job\<close> before it raises). \<open>tensor_values\<close> is the method \<^verbatim>\<open>values()\<close>
  of a tensor. The shell and the upload get the local files to read, not to write; what a
  library keeps outside the working directory (the loader's download cache, temporary
  files) is not part of the local files of this development.
\<close>

record 'r env =
  execution_role :: string
  load_data :: "(batch \<times> batch, 'r) extern"
  io_error :: "string \<Rightarrow> error option"
  write_error :: "string \<Rightarrow> (error \<times> uint8 list) option"
  sh :: "string \<Rightarrow> string list \<Rightarrow> (string \<rightharpoonup> content) \<Rightarrow> (string, 'r) extern"
  upload_data :: "string \<Rightarrow> string \<Rightarrow> (string \<rightharpoonup> content) \<Rightarrow> (string, 'r) extern"
  TensorFlow :: "job_spec \<Rightarrow> (unit, 'r) extern"
  fit :: "job_spec \<Rightarrow> (string \<times> string) list \<Rightarrow> 'r \<Rightarrow> (error option \<times> string option) \<times> 'r"
  describe_training_job :: "string \<Rightarrow> (pydict, 'r) extern"
  create_trial :: "string \<Rightarrow> (obj, 'r) extern"
  tensor_names :: "obj \<Rightarrow> (string list, 'r) extern"
  tensor :: "obj \<Rightarrow> string \<Rightarrow> (obj, 'r) extern"
  tensor_values :: "obj \<Rightarrow> (pyval, 'r) extern"

subsection \<open>The world\<close>

text \<open>
  The local file system (files and directories under the working directory, by normalised
  relative path), the remote state, the operations attempted so far, those of them that
  raised, each with its exception, what the cells have printed or displayed, and the variables of the kernel namespace that one cell sets and a
  later cell reads.
\<close>

record 'r world =
  files :: "string \<rightharpoonup> content"
  dirs :: "string set"
  remote :: 'r
  trace :: "event list"
  failures :: "(event \<times> error) list"
  stdout :: "shown list"
  keras_script_path :: "string option"
  training_input_path :: "string option"
  validation_input_path :: "string option"
  tf_estimator :: "estimator option"
  job_name :: "string option"
  description :: "pydict option"
  s3_output_path :: "string option"
  trial :: "obj option"
  loss_values :: "pyval option"

type_synonym ('a, 'r) act = "'r world \<Rightarrow> (error + 'a) \<times> 'r world"

definition ret :: "'a \<Rightarrow> ('a, 'r) act" where
  "ret a w = (Inr a, w)"

definition raise :: "error \<Rightarrow> ('a, 'r) act" where
  "raise e w = (Inl e, w)"

text \<open>Sequencing: an exception ends the cell, nothing catches it.\<close>

definition bind :: "('a, 'r) act \<Rightarrow> ('a \<Rightarrow> ('b, 'r) act) \<Rightarrow> ('b, 'r) act" where
  "bind m f w = (case m w of (Inl e, w') \<Rightarrow> (Inl e, w') | (Inr a, w') \<Rightarrow> f a w')"

definition seq :: "('a, 'r) act \<Rightarrow> ('b, 'r) act \<Rightarrow> ('b, 'r) act" where
  "seq m n = bind m (\<lambda>_. n)"

text \<open>
  A call of an external operation: the attempt is recorded, then its outcome is taken; an
  exception of the operation is recorded as its failure and is the outcome of the call.
\<close>

definition call :: "event \<Rightarrow> ('a, 'r) extern \<Rightarrow> ('a, 'r) act" where
  "call ev f w =
     (case f (remote w) of
        (Inl e, r) \<Rightarrow>
          (Inl e, w\<lparr>remote := r, trace := trace w @ [ev], failures := failures w @ [(ev, e)]\<rparr>)
      | (Inr a, r) \<Rightarrow> (Inr a, w\<lparr>remote := r, trace := trace w @ [ev]\<rparr>))"

text \<open>The same for an operation on the local file system that has raised \<open>e\<close>.\<close>

definition failed :: "event \<Rightarrow> error \<Rightarrow> 'r world \<Rightarrow> (error + 'a) \<times> 'r world" where
  "failed ev e w = (Inl e, w\<lparr>failures := failures w @ [(ev, e)]\<rparr>)"

definition call_local :: "event \<Rightarrow> ((string \<rightharpoonup> content) \<Rightarrow> ('a, 'r) extern) \<Rightarrow> ('a, 'r) act" where
  "call_local ev f w = call ev (f (files w)) w"

text \<open>Reading a variable of the namespace: \<^verbatim>\<open>NameError\<close> when no cell has set it.\<close>

definition name :: "string \<Rightarrow> ('r world \<Rightarrow> 'a option) \<Rightarrow> ('a, 'r) act" where
  "name x var w = (case var w of None \<Rightarrow> (Inl (NameError x), w) | Some v \<Rightarrow> (Inr v, w))"

definition assign :: "('r world \<Rightarrow> 'r world) \<Rightarrow> (unit, 'r) act" where
  "assign upd w = (Inr (), upd w)"

text \<open>\<^verbatim>\<open>print\<close>, \<^verbatim>\<open>pprint.pprint\<close> and the display of a cell's last expression.\<close>

definition print :: "pyval \<Rightarrow> (unit, 'r) act" where
  "print v w = (Inr (), w\<lparr>stdout := stdout w @ [Out v]\<rparr>)"

definition display :: "obj \<Rightarrow> (unit, 'r) act" where
  "display x w = (Inr (), w\<lparr>stdout := stdout w @ [Repr x]\<rparr>)"

definition lift :: "error + 'a \<Rightarrow> ('a, 'r) act" where
  "lift x w = (x, w)"

subsection \<open>Paths, \<^verbatim>\<open>os.makedirs\<close> and \<^verbatim>\<open>np.savez\<close>\<close>

text \<open>A relative path with and without a leading \<^verbatim>\<open>./\<close> names the same file.\<close>

fun normpath :: "string \<Rightarrow> string" where
  "normpath (CHR ''.'' # CHR ''/'' # p) = normpath p"
| "normpath p = p"

definition dirname :: "string \<Rightarrow> string" where
  "dirname p = rev (drop 1 (dropWhile (\<lambda>c. c \<noteq> CHR ''/'') (rev p)))"

definition endswith :: "string \<Rightarrow> string \<Rightarrow> bool" where
  "endswith s t = (length t \<le> length s \<and> drop (length s - length t) s = t)"

text \<open>
  \<^verbatim>\<open>os.makedirs(path, exist_ok=True)\<close>: an existing directory is accepted, an existing
  file of that name is not.
\<close>

definition makedirs :: "'r env \<Rightarrow> string \<Rightarrow> (unit, 'r) act" where
  "makedirs E path w =
     (let p = normpath path; w1 = w\<lparr>trace := trace w @ [Makedirs path]\<rparr> in
      if p \<in> dom (files w) then failed (Makedirs path) (FileExistsError path) w1
      else if p \<in> dirs w then (Inr (), w1)
      else case io_error E p of
             Some e \<Rightarrow> failed (Makedirs path) e w1
           | None \<Rightarrow> (Inr (), w1\<lparr>dirs := insert p (dirs w)\<rparr>))"

text \<open>
  \<^verbatim>\<open>np.savez(file, **kwds)\<close>: the extension \<^verbatim>\<open>.npz\<close> is appended to the name when it is not
  there, and the file is created or replaced by the archive of the keyword arguments. The
  file is opened for writing first: when that is refused, nothing is created and the
  exception names the path as numpy built it; when a write fails afterwards, the file is
  left, created or truncated, with the bytes written so far.
\<close>

definition savez :: "'r env \<Rightarrow> string \<Rightarrow> archive \<Rightarrow> (unit, 'r) act" where
  "savez E fname kwds w =
     (let built = (if endswith fname ''.npz'' then fname else fname @ ''.npz'');
          p = normpath built;
          w1 = w\<lparr>trace := trace w @ [Savez fname]\<rparr> in
      if p \<in> dirs w then failed (Savez fname) (IsADirectoryError built) w1
      else if dirname p \<noteq> [] \<and> dirname p \<notin> dirs w
        then failed (Savez fname) (FileNotFoundError built) w1
      else case io_error E p of
             Some e \<Rightarrow> failed (Savez fname) e w1
           | None \<Rightarrow>
               (case write_error E p of
                  Some (e, left) \<Rightarrow>
                    failed (Savez fname) e (w1\<lparr>files := (files w)(p \<mapsto> Blob left)\<rparr>)
                | None \<Rightarrow> (Inr (), w1\<lparr>files := (files w)(p \<mapsto> Npz kwds)\<rparr>)))"

subsection \<open>Cell 9: the dataset stager\<close>

text \<open>
  \<^verbatim>\<open>
  (x_train, y_train), (x_val, y_val) = fashion_mnist.load_data()
  os.makedirs("./data", exist_ok = True)
  np.savez('./data/training', image=x_train, label=y_train)
  np.savez('./data/validation', image=x_val, label=y_val)
  \<close>
\<close>

definition cell9 :: "'r env \<Rightarrow> (unit, 'r) act" where
  "cell9 E =
     bind (call Load_data (load_data E)) (\<lambda>((x_train, y_train), (x_val, y_val)).
     seq (makedirs E ''./data'')
    (seq (savez E ''./data/training'' [(''image'', Images x_train), (''label'', Labels y_train)])
         (savez E ''./data/validation'' [(''image'', Images x_val), (''label'', Labels y_val)])))"

subsection \<open>Cells 10 to 13: the shell cells and the script path\<close>

text \<open>
  A \<^verbatim>\<open>%%sh\<close> cell runs its script and shows what it wrote. IPython expands \<^verbatim>\<open>$name\<close> in the
  cell's arguments; a name that is not defined is left as it is written.
\<close>

definition shell :: "'r env \<Rightarrow> string \<Rightarrow> string list \<Rightarrow> (unit, 'r) act" where
  "shell E script args =
     bind (call_local (Sh script args) (sh E script args)) (\<lambda>out. print (PStr out))"

definition expand :: "string \<Rightarrow> ('r world \<Rightarrow> string option) \<Rightarrow> 'r world \<Rightarrow> string" where
  "expand x var w = (case var w of None \<Rightarrow> CHR ''$'' # x | Some v \<Rightarrow> v)"

definition cell10 :: "'r env \<Rightarrow> (unit, 'r) act" where
  "cell10 E = shell E ''ls -l data'' []"

definition cell12 :: "(unit, 'r) act" where
  "cell12 = assign (\<lambda>w. w\<lparr>keras_script_path := Some ''/root/aim410/mnist_keras_tf.py''\<rparr>)"

definition cell13 :: "'r env \<Rightarrow> (unit, 'r) act" where
  "cell13 E w = shell E ''pygmentize $1'' [expand ''keras_script_path'' keras_script_path w] w"

subsection \<open>Cell 17: the uploader\<close>

text \<open>
  \<^verbatim>\<open>
  prefix = 'keras-fashion-mnist'
  training_input_path   = sess.upload_data('data/training.npz', key_prefix=prefix+'/training')
  validation_input_path = sess.upload_data('data/validation.npz', key_prefix=prefix+'/validation')
  print(training_input_path)
  print(validation_input_path)
  \<close>
\<close>

definition upload :: "'r env \<Rightarrow> string \<Rightarrow> string \<Rightarrow> (string, 'r) act" where
  "upload E path key_prefix =
     call_local (Upload_data path key_prefix) (upload_data E path key_prefix)"

definition cell17 :: "'r env \<Rightarrow> (unit, 'r) act" where
  "cell17 E =
     (let prefix = ''keras-fashion-mnist'' in
      bind (upload E ''data/training.npz'' (prefix @ ''/training'')) (\<lambda>t.
      seq (assign (\<lambda>w. w\<lparr>training_input_path := Some t\<rparr>))
     (bind (upload E ''data/validation.npz'' (prefix @ ''/validation'')) (\<lambda>v.
      seq (assign (\<lambda>w. w\<lparr>validation_input_path := Some v\<rparr>))
     (seq (print (PStr t)) (print (PStr v)))))))"

subsection \<open>Cells 21 and 23: the job submitter\<close>

text \<open>
  \<^verbatim>\<open>
  tf_estimator = TensorFlow(entry_point=keras_script_path, role=role,
                            train_instance_count=1, train_instance_type='ml.p3.2xlarge',
                            framework_version='1.15', script_mode=True, py_version='py3',
                            rules = [Rule.sagemaker(rule_configs.loss_not_decreasing()),
                                     Rule.sagemaker(rule_configs.overfit())])
  \<close>
  The two rule objects are named by their configuration; building them is part of the one
  call of the constructor.
\<close>

definition cell21 :: "'r env \<Rightarrow> (unit, 'r) act" where
  "cell21 E =
     bind (name ''keras_script_path'' keras_script_path) (\<lambda>p.
     let js = \<lparr>entry_point = p, role = execution_role E, train_instance_count = 1,
               train_instance_type = ''ml.p3.2xlarge'', framework_version = ''1.15'',
               script_mode = True, py_version = ''py3'',
               rules = [''loss_not_decreasing'', ''overfit'']\<rparr> in
     seq (call (TensorFlow_init js) (TensorFlow E js))
         (assign (\<lambda>w. w\<lparr>tf_estimator := Some \<lparr>spec = js, latest_training_job = None\<rparr>\<rparr>)))"

text \<open>
  \<^verbatim>\<open>tf_estimator.fit({'training': training_input_path, 'validation': validation_input_path})\<close>
\<close>

definition submit :: "'r env \<Rightarrow> estimator \<Rightarrow> (string \<times> string) list \<Rightarrow> (unit, 'r) act" where
  "submit E est inputs w =
     (case fit E (spec est) inputs (remote w) of
        ((err, started), r) \<Rightarrow>
          (case err of None \<Rightarrow> Inr () | Some e \<Rightarrow> Inl e,
           w\<lparr>remote := r, trace := trace w @ [Fit inputs],
             failures := (case err of None \<Rightarrow> failures w
                          | Some e \<Rightarrow> failures w @ [(Fit inputs, e)]),
             tf_estimator := Some (case started of None \<Rightarrow> est
                                   | Some n \<Rightarrow> est\<lparr>latest_training_job := Some n\<rparr>)\<rparr>))"

definition cell23 :: "'r env \<Rightarrow> (unit, 'r) act" where
  "cell23 E =
     bind (name ''tf_estimator'' tf_estimator) (\<lambda>est.
     bind (name ''training_input_path'' training_input_path) (\<lambda>t.
     bind (name ''validation_input_path'' validation_input_path) (\<lambda>v.
     submit E est [(''training'', t), (''validation'', v)])))"

subsection \<open>Cells 26 to 29: the status reader\<close>

text \<open>
  \<^verbatim>\<open>
  job_name = tf_estimator.latest_training_job.name
  client = tf_estimator.sagemaker_session.sagemaker_client
  description = client.describe_training_job(TrainingJobName=job_name)
  \<close>
\<close>

definition cell26 :: "'r env \<Rightarrow> (unit, 'r) act" where
  "cell26 E =
     bind (name ''tf_estimator'' tf_estimator) (\<lambda>est.
     case latest_training_job est of
       None \<Rightarrow> raise (AttributeError ''name'')
     | Some n \<Rightarrow>
         seq (assign (\<lambda>w. w\<lparr>job_name := Some n\<rparr>))
        (bind (call (Describe_training_job n) (describe_training_job E n)) (\<lambda>d.
         assign (\<lambda>w. w\<lparr>description := Some d\<rparr>))))"

text \<open>\<^verbatim>\<open>v[k]\<close> for a string \<open>k\<close>: only a dictionary can be subscripted by a string.\<close>

definition getitem :: "pyval \<Rightarrow> string \<Rightarrow> error + pyval" where
  "getitem v k =
     (case v of
        PDict d \<Rightarrow> (case map_of d k of None \<Rightarrow> Inl (KeyError k) | Some x \<Rightarrow> Inr x)
      | _ \<Rightarrow> Inl TypeError)"

text \<open>The items a \<^verbatim>\<open>for\<close> loop takes from a value: a dictionary gives its keys, a string its characters.\<close>

definition iterate :: "pyval \<Rightarrow> error + pyval list" where
  "iterate v =
     (case v of
        PList xs \<Rightarrow> Inr xs
      | PStr s \<Rightarrow> Inr (map (\<lambda>c. PStr [c]) s)
      | PDict d \<Rightarrow> Inr (map (\<lambda>(k, _). PStr k) (AList.clearjunk d))
      | _ \<Rightarrow> Inl TypeError)"

text \<open>
  \<^verbatim>\<open>v.pop(k)\<close> for a string \<open>k\<close> and no default: the object after the call (the cell drops
  the value popped). A dictionary without the key raises \<^verbatim>\<open>KeyError\<close>, a list wants an
  integer, and no other value has the method.
\<close>

definition pop :: "pyval \<Rightarrow> string \<Rightarrow> error + pyval" where
  "pop v k =
     (case v of
        PDict d \<Rightarrow> (case map_of d k of None \<Rightarrow> Inl (KeyError k)
                   | Some _ \<Rightarrow> Inr (PDict (AList.delete k d)))
      | PList _ \<Rightarrow> Inl TypeError
      | _ \<Rightarrow> Inl (AttributeError ''pop''))"

text \<open>
  \<^verbatim>\<open>
  for status in description['DebugRuleEvaluationStatuses']:
      status.pop('LastModifiedTime')
      status.pop('RuleEvaluationJobArn')
      pprint.pprint(status)
  \<close>
  The loop returns the exception that ended it, if any, the items as the loop left them,
  and what it printed.
\<close>

fun pop_fields :: "pyval list \<Rightarrow> error option \<times> pyval list \<times> pyval list" where
  "pop_fields [] = (None, [], [])"
| "pop_fields (status # rest) =
     (case pop status ''LastModifiedTime'' of
        Inl e \<Rightarrow> (Some e, status # rest, [])
      | Inr s1 \<Rightarrow>
          (case pop s1 ''RuleEvaluationJobArn'' of
             Inl e \<Rightarrow> (Some e, s1 # rest, [])
           | Inr s2 \<Rightarrow>
               (case pop_fields rest of (err, rest', out) \<Rightarrow> (err, s2 # rest', s2 # out))))"

text \<open>
  The statuses of a list are objects of the snapshot: what the loop does to them is done to
  \<^verbatim>\<open>description\<close>. The keys of a dictionary and the characters of a string are not.
\<close>

definition cell27 :: "(unit, 'r) act" where
  "cell27 =
     bind (name ''description'' description) (\<lambda>d.
     bind (lift (getitem (PDict d) ''DebugRuleEvaluationStatuses'')) (\<lambda>v.
     bind (lift (iterate v)) (\<lambda>items.
     case pop_fields items of
       (err, items', out) \<Rightarrow>
         seq (assign (\<lambda>w. w\<lparr>stdout := stdout w @ map Out out,
                description := Some (case v of
                    PList _ \<Rightarrow> AList.update ''DebugRuleEvaluationStatuses'' (PList items') d
                  | _ \<Rightarrow> d)\<rparr>))
             (case err of None \<Rightarrow> ret () | Some e \<Rightarrow> raise e))))"

text \<open>\<^verbatim>\<open>v + s\<close> for a string \<open>s\<close>: only a string can be added to a string.\<close>

definition add_str :: "pyval \<Rightarrow> string \<Rightarrow> error + string" where
  "add_str v s = (case v of PStr a \<Rightarrow> Inr (a @ s) | _ \<Rightarrow> Inl TypeError)"

text \<open>
  \<^verbatim>\<open>
  s3_output_path = description["DebugHookConfig"]["S3OutputPath"] + job_name + '/' + 'debug-output/'
  print(s3_output_path)
  \<close>
\<close>

definition cell29 :: "(unit, 'r) act" where
  "cell29 =
     bind (name ''description'' description) (\<lambda>d.
     bind (lift (getitem (PDict d) ''DebugHookConfig'')) (\<lambda>hook.
     bind (lift (getitem hook ''S3OutputPath'')) (\<lambda>out.
     bind (name ''job_name'' job_name) (\<lambda>n.
     bind (lift (add_str out n)) (\<lambda>p.
     let path = (p @ ''/'') @ ''debug-output/'' in
     seq (assign (\<lambda>w. w\<lparr>s3_output_path := Some path\<rparr>)) (print (PStr path)))))))"

subsection \<open>Cells 30 to 34: the trial reader\<close>

definition cell30 :: "'r env \<Rightarrow> (unit, 'r) act" where
  "cell30 E w =
     shell E ''aws s3 ls --recursive $1'' [expand ''s3_output_path'' s3_output_path w] w"

text \<open>\<^verbatim>\<open>trial = create_trial(s3_output_path)\<close>, then the cell shows \<^verbatim>\<open>trial\<close>.\<close>

definition cell31 :: "'r env \<Rightarrow> (unit, 'r) act" where
  "cell31 E =
     bind (name ''s3_output_path'' s3_output_path) (\<lambda>p.
     bind (call (Create_trial p) (create_trial E p)) (\<lambda>t.
     seq (assign (\<lambda>w. w\<lparr>trial := Some t\<rparr>)) (display t)))"

text \<open>\<^verbatim>\<open>trial.tensor_names()\<close>\<close>

definition cell32 :: "'r env \<Rightarrow> (unit, 'r) act" where
  "cell32 E =
     bind (name ''trial'' trial) (\<lambda>t.
     bind (call (Tensor_names t) (tensor_names E t)) (\<lambda>ns.
     print (PList (map PStr ns))))"

text \<open>\<^verbatim>\<open>loss_values = trial.tensor('val_loss').values()\<close>\<close>

definition cell33 :: "'r env \<Rightarrow> (unit, 'r) act" where
  "cell33 E =
     bind (name ''trial'' trial) (\<lambda>t.
     bind (call (Tensor t ''val_loss'') (tensor E t ''val_loss'')) (\<lambda>x.
     bind (call (Values x) (tensor_values E x)) (\<lambda>vs.
     assign (\<lambda>w. w\<lparr>loss_values := Some vs\<rparr>))))"

text \<open>\<^verbatim>\<open>loss_values\<close>\<close>

definition cell34 :: "(unit, 'r) act" where
  "cell34 = bind (name ''loss_values'' loss_values) print"

subsection \<open>The notebook\<close>

text \<open>
  The code cells in their order. Running them all stops at the first cell that raises: the
  cells after it are not run.
\<close>

definition notebook :: "'r env \<Rightarrow> (unit, 'r) act list" where
  "notebook E =
     [cell9 E, cell10 E, cell12, cell13 E, cell17 E, cell21 E, cell23 E, cell26 E,
      cell27, cell29, cell30 E, cell31 E, cell32 E, cell33 E, cell34]"

fun run_all :: "(unit, 'r) act list \<Rightarrow> (unit, 'r) act" where
  "run_all [] w = (Inr (), w)"
| "run_all (c # cs) w =
     (case c w of (Inl e, w') \<Rightarrow> (Inl e, w') | (Inr _, w') \<Rightarrow> run_all cs w')"

text \<open>The status reader is the three cells that fetch the snapshot and project it.\<close>

definition status_reader :: "'r env \<Rightarrow> (unit, 'r) act" where
  "status_reader E = run_all [cell26 E, cell27, cell29]"

subsection \<open>The order of the operations\<close>

text \<open>
  Each operation on the outside world has a place in the notebook: \<open>kind\<close> numbers the
  operations in the order in which the cells attempt them. \<open>steps F lo hi c\<close> says of an
  action \<open>c\<close> that, however it ends, the operations it attempted have strictly increasing
  places between \<open>lo\<close> and \<open>hi\<close> and, when \<open>F\<close> holds, that it has left the local files
  as they were. \<open>pure\<close> says that an action attempted no operation at all.
\<close>

definition kind :: "event \<Rightarrow> nat" where
  "kind ev =
     (case ev of
        Load_data \<Rightarrow> 0
      | Makedirs _ \<Rightarrow> 1
      | Savez f \<Rightarrow> (if f = ''./data/training'' then 2 else 3)
      | Sh s _ \<Rightarrow> (if s = ''ls -l data'' then 4 else if s = ''pygmentize $1'' then 5 else 11)
      | Upload_data p _ \<Rightarrow> (if p = ''data/training.npz'' then 6 else 7)
      | TensorFlow_init _ \<Rightarrow> 8
      | Fit _ \<Rightarrow> 9
      | Describe_training_job _ \<Rightarrow> 10
      | Create_trial _ \<Rightarrow> 12
      | Tensor_names _ \<Rightarrow> 13
      | Tensor _ _ \<Rightarrow> 14
      | Values _ \<Rightarrow> 15)"

definition steps :: "bool \<Rightarrow> nat \<Rightarrow> nat \<Rightarrow> ('a, 'r) act \<Rightarrow> bool" where
  "steps F lo hi c =
     (\<forall>w res w'. c w = (res, w') \<longrightarrow>
        (F \<longrightarrow> files w' = files w \<and> dirs w' = dirs w) \<and>
        (\<exists>evs. trace w' = trace w @ evs \<and> sorted_wrt (<) (map kind evs) \<and>
               (\<forall>ev\<in>set evs. lo \<le> kind ev \<and> kind ev < hi)))"

definition pure :: "('a, 'r) act \<Rightarrow> bool" where
  "pure c = (\<forall>w res w'. c w = (res, w') \<longrightarrow>
               files w' = files w \<and> dirs w' = dirs w \<and> trace w' = trace w \<and>
               failures w' = failures w)"

text \<open>
  \<open>failfast c\<close> says of an action \<open>c\<close> started with no failure on record that no operation
  it attempted has raised, or that exactly one has, that it is the last operation attempted
  and that its exception is the outcome of \<open>c\<close>.
\<close>

definition failfast :: "('a, 'r) act \<Rightarrow> bool" where
  "failfast c =
     (\<forall>w res w'. c w = (res, w') \<and> failures w = [] \<longrightarrow>
        failures w' = [] \<or>
        (\<exists>ev e. failures w' = [(ev, e)] \<and> res = Inl e \<and> trace w' \<noteq> [] \<and> last (trace w') = ev))"

text \<open>The operations that write to the local file system.\<close>

fun is_write :: "event \<Rightarrow> bool" where
  "is_write (Makedirs _) = True"
| "is_write (Savez _) = True"
| "is_write _ = False"

subsection \<open>A concrete environment\<close>

text \<open>A run in which every operation succeeds, on which the theorems are exercised.\<close>

definition demo_description :: pydict where
  "demo_description =
     [(''TrainingJobName'', PStr ''job-1''),
      (''DebugHookConfig'', PDict [(''S3OutputPath'', PStr ''s3://bucket/'')]),
      (''DebugRuleEvaluationStatuses'',
         PList [PDict [(''RuleConfigurationName'', PStr ''LossNotDecreasing''),
                       (''RuleEvaluationJobArn'', PStr ''arn:rule-1''),
                       (''RuleEvaluationStatus'', PStr ''InProgress''),
                       (''LastModifiedTime'', PTime 1575331200)],
                PDict [(''RuleConfigurationName'', PStr ''Overfit''),
                       (''RuleEvaluationJobArn'', PStr ''arn:rule-2''),
                       (''RuleEvaluationStatus'', PStr ''NoIssuesFound''),
                       (''LastModifiedTime'', PTime 1575331260)]])]"

definition demo_env :: "nat env" where
  "demo_env =
     \<lparr>execution_role = ''arn:aws:iam::role/demo'',
      load_data = (\<lambda>r. (Inr (([[[0, 255]], [[3, 4]]], [9, 2]), ([[[7, 1]]], [3])), Suc r)),
      io_error = (\<lambda>_. None),
      write_error = (\<lambda>_. None),
      sh = (\<lambda>script args fs r. (Inr [], Suc r)),
      upload_data = (\<lambda>path key fs r. (Inr (''s3://bucket/'' @ key), Suc r)),
      TensorFlow = (\<lambda>js r. (Inr (), r)),
      fit = (\<lambda>js inputs r. ((None, Some ''job-1''), Suc r)),
      describe_training_job = (\<lambda>n r. (Inr demo_description, Suc r)),
      create_trial = (\<lambda>p r. (Inr 1, Suc r)),
      tensor_names = (\<lambda>t r. (Inr [''val_loss''], Suc r)),
      tensor = (\<lambda>t n r. (Inr 2, Suc r)),
      tensor_values = (\<lambda>x r. (Inr (PList [PFloat 0]), Suc r))\<rparr>"

definition fresh :: "nat world" where
  "fresh =
     \<lparr>files = Map.empty, dirs = {}, remote = 0, trace = [], failures = [], stdout = [],
      keras_script_path = None, training_input_path = None, validation_input_path = None,
      tf_estimator = None, job_name = None, description = None, s3_output_path = None,
      trial = None, loss_values = None\<rparr>"

definition demo_estimator :: estimator where
  "demo_estimator =
     \<lparr>spec = \<lparr>entry_point = ''/root/aim410/mnist_keras_tf.py'', role = ''arn:aws:iam::role/demo'',
              train_instance_count = 1, train_instance_type = ''ml.p3.2xlarge'',
              framework_version = ''1.15'', script_mode = True, py_version = ''py3'',
              rules = [''loss_not_decreasing'', ''overfit'']\<rparr>,
      latest_training_job = Some ''job-1''\<rparr>"



subsection \<open>The output-path field of a snapshot\<close>

text \<open>The entry \<^verbatim>\<open>S3OutputPath\<close> of the dictionary under \<^verbatim>\<open>DebugHookConfig\<close>, when there is one.\<close>

definition output_path_field :: "pydict \<Rightarrow> pyval option" where
  "output_path_field d =
     (case map_of d ''DebugHookConfig'' of
        Some (PDict h) \<Rightarrow> map_of h ''S3OutputPath''
      | _ \<Rightarrow> None)"

section \<open>Rules for actions\<close>

named_theorems pure_intros

lemma pure_bind [pure_intros]: "pure m \<Longrightarrow> (\<And>a. pure (f a)) \<Longrightarrow> pure (bind m f)"
  unfolding pure_def bind_def by (fastforce split: prod.splits sum.splits)

lemma pure_seq [pure_intros]: "pure m \<Longrightarrow> pure n \<Longrightarrow> pure (seq m n)"
  unfolding seq_def by (rule pure_bind)

lemma pure_name [pure_intros]: "pure (name x var)"
  unfolding pure_def name_def by (auto split: option.splits)

lemma pure_lift [pure_intros]: "pure (lift x)"
  unfolding pure_def lift_def by simp

lemma pure_ret [pure_intros]: "pure (ret a)"
  unfolding pure_def ret_def by simp

lemma pure_raise [pure_intros]: "pure (raise e)"
  unfolding pure_def raise_def by simp

lemma pure_print [pure_intros]: "pure (print v)"
  unfolding pure_def print_def by auto

lemma pure_display [pure_intros]: "pure (display x)"
  unfolding pure_def display_def by auto

lemma pure_assign:
  "(\<And>w. files (upd w) = files w \<and> dirs (upd w) = dirs w \<and> trace (upd w) = trace w \<and>
        failures (upd w) = failures w) \<Longrightarrow> pure (assign upd)"
  unfolding pure_def assign_def by auto

lemma pure_option [pure_intros]:
  "pure a \<Longrightarrow> (\<And>x. pure (b x)) \<Longrightarrow> pure (case v of None \<Rightarrow> a | Some x \<Rightarrow> b x)"
  by (cases v) simp_all

lemma pure_prod [pure_intros]: "(\<And>x y. pure (c x y)) \<Longrightarrow> pure (case p of (x, y) \<Rightarrow> c x y)"
  by (cases p) simp

lemma steps_pure: "pure c \<Longrightarrow> lo \<le> hi \<Longrightarrow> steps F lo hi c"
  unfolding pure_def steps_def by fastforce

lemma sorted_kinds_append:
  assumes "sorted_wrt (<) (map kind xs)" "sorted_wrt (<) (map kind ys)"
    and "\<forall>ev\<in>set xs. kind ev < mid" "\<forall>ev\<in>set ys. mid \<le> kind ev"
  shows "sorted_wrt (<) (map kind (xs @ ys))"
  using assms by (fastforce simp: sorted_wrt_append)

lemma steps_bind:
  assumes m: "steps F lo mid m" and f: "\<And>a. steps F mid hi (f a)"
    and le: "lo \<le> mid" "mid \<le> hi"
  shows "steps F lo hi (bind m f)"
  unfolding steps_def
proof (intro allI impI)
  fix w res w'
  assume run: "bind m f w = (res, w')"
  obtain r1 w1 where mw: "m w = (r1, w1)" by (cases "m w")
  from m mw obtain xs where xs: "F \<longrightarrow> files w1 = files w \<and> dirs w1 = dirs w"
      "trace w1 = trace w @ xs" "sorted_wrt (<) (map kind xs)"
      "\<forall>ev\<in>set xs. lo \<le> kind ev \<and> kind ev < mid"
    unfolding steps_def by blast
  show "(F \<longrightarrow> files w' = files w \<and> dirs w' = dirs w) \<and>
        (\<exists>evs. trace w' = trace w @ evs \<and> sorted_wrt (<) (map kind evs) \<and>
               (\<forall>ev\<in>set evs. lo \<le> kind ev \<and> kind ev < hi))"
  proof (cases r1)
    case (Inl e)
    with run mw have "w' = w1" by (simp add: bind_def)
    with xs le show ?thesis by fastforce
  next
    case (Inr a)
    with run mw have "f a w1 = (res, w')" by (simp add: bind_def)
    with f obtain ys where ys: "F \<longrightarrow> files w' = files w1 \<and> dirs w' = dirs w1"
        "trace w' = trace w1 @ ys" "sorted_wrt (<) (map kind ys)"
        "\<forall>ev\<in>set ys. mid \<le> kind ev \<and> kind ev < hi"
      unfolding steps_def by blast
    have s: "sorted_wrt (<) (map kind (xs @ ys))"
      using xs(3) ys(3) xs(4) ys(4) by (intro sorted_kinds_append[where mid=mid]) auto
    have "trace w' = trace w @ (xs @ ys)" using xs(2) ys(2) by simp
    moreover have "\<forall>ev\<in>set (xs @ ys). lo \<le> kind ev \<and> kind ev < hi"
      using xs(4) ys(4) le by fastforce
    ultimately show ?thesis using xs(1) ys(1) s by metis
  qed
qed

lemma steps_seq:
  "steps F lo mid m \<Longrightarrow> steps F mid hi n \<Longrightarrow> lo \<le> mid \<Longrightarrow> mid \<le> hi \<Longrightarrow> steps F lo hi (seq m n)"
  unfolding seq_def by (rule steps_bind)

lemma steps_call: "lo \<le> kind ev \<Longrightarrow> kind ev < hi \<Longrightarrow> steps F lo hi (call ev f)"
  unfolding steps_def call_def by (auto split: prod.splits sum.splits)

lemma steps_call_local: "lo \<le> kind ev \<Longrightarrow> kind ev < hi \<Longrightarrow> steps F lo hi (call_local ev f)"
  unfolding steps_def call_local_def call_def by (auto split: prod.splits sum.splits)

lemma steps_dep: "(\<And>x. steps F lo hi (c x)) \<Longrightarrow> steps F lo hi (\<lambda>w. c (g w) w)"
  unfolding steps_def by blast



subsection \<open>One failure ends the action\<close>

named_theorems failfast_intros

lemma failfast_pure: "pure c \<Longrightarrow> failfast c"
  unfolding pure_def failfast_def by fastforce



lemma failfast_call [failfast_intros]: "failfast (call ev f)"
  unfolding failfast_def call_def by (auto split: prod.splits sum.splits)

lemma failfast_call_local [failfast_intros]: "failfast (call_local ev f)"
  unfolding failfast_def call_local_def call_def by (auto split: prod.splits sum.splits)

lemma failfast_name [failfast_intros]: "failfast (name x var)"
  by (rule failfast_pure) (rule pure_name)

lemma failfast_lift [failfast_intros]: "failfast (lift x)"
  by (rule failfast_pure) (rule pure_lift)

lemma failfast_ret [failfast_intros]: "failfast (ret a)"
  by (rule failfast_pure) (rule pure_ret)

lemma failfast_raise [failfast_intros]: "failfast (raise e)"
  by (rule failfast_pure) (rule pure_raise)

lemma failfast_print [failfast_intros]: "failfast (print v)"
  by (rule failfast_pure) (rule pure_print)

lemma failfast_display [failfast_intros]: "failfast (display x)"
  by (rule failfast_pure) (rule pure_display)

lemma failfast_assign [failfast_intros]: "pure (assign upd) \<Longrightarrow> failfast (assign upd)"
  by (rule failfast_pure)

lemma failfast_option [failfast_intros]:
  "failfast a \<Longrightarrow> (\<And>x. failfast (b x)) \<Longrightarrow> failfast (case v of None \<Rightarrow> a | Some x \<Rightarrow> b x)"
  by (cases v) simp_all

lemma failfast_prod [failfast_intros]:
  "(\<And>x y. failfast (c x y)) \<Longrightarrow> failfast (case p of (x, y) \<Rightarrow> c x y)"
  by (cases p) simp


lemma failfast_makedirs [failfast_intros]: "failfast (makedirs E path)"
  unfolding failfast_def makedirs_def failed_def Let_def
  by (auto split: option.splits if_splits)

lemma failfast_savez [failfast_intros]: "failfast (savez E f a)"
  unfolding failfast_def savez_def failed_def Let_def
  by (auto split: option.splits if_splits)

lemma failfast_submit [failfast_intros]: "failfast (submit E est inputs)"
  unfolding failfast_def submit_def
  by (auto split: prod.splits option.splits)

section \<open>What each cell attempts\<close>

lemma assign_ok [simp]:
  "pure (assign (\<lambda>w. w\<lparr>keras_script_path := a\<rparr>))"
  "pure (assign (\<lambda>w. w\<lparr>training_input_path := a\<rparr>))"
  "pure (assign (\<lambda>w. w\<lparr>validation_input_path := a\<rparr>))"
  "pure (assign (\<lambda>w. w\<lparr>tf_estimator := e\<rparr>))"
  "pure (assign (\<lambda>w. w\<lparr>job_name := a\<rparr>))"
  "pure (assign (\<lambda>w. w\<lparr>description := d\<rparr>))"
  "pure (assign (\<lambda>w. w\<lparr>s3_output_path := a\<rparr>))"
  "pure (assign (\<lambda>w. w\<lparr>trial := t\<rparr>))"
  "pure (assign (\<lambda>w. w\<lparr>loss_values := v\<rparr>))"
  "pure (assign (\<lambda>w. w\<lparr>stdout := g w, description := h w\<rparr>))"
  by (rule pure_assign, simp)+


lemma steps_shell:
  "lo \<le> kind (Sh script args) \<Longrightarrow> kind (Sh script args) < hi \<Longrightarrow> steps F lo hi (shell E script args)"
  unfolding shell_def
  apply (rule steps_bind[where mid=hi])
     apply (rule steps_call_local; simp)
    apply (rule steps_pure; simp add: pure_print)
   apply simp_all
  done

lemma steps_cell10: "steps F 4 5 (cell10 E)"
  unfolding cell10_def by (rule steps_shell; simp add: kind_def)

lemma steps_cell12: "steps F 5 5 cell12"
  unfolding cell12_def by (rule steps_pure; simp)

lemma steps_cell13: "steps F 5 6 (cell13 E)"
proof -
  have "steps F 5 6 (\<lambda>w. shell E ''pygmentize $1'' [expand ''keras_script_path'' keras_script_path w] w)"
    by (rule steps_dep[where c="\<lambda>x. shell E ''pygmentize $1'' [x]"]) (rule steps_shell; simp add: kind_def)
  then show ?thesis unfolding cell13_def[abs_def] .
qed

lemma steps_cell30: "steps F 11 12 (cell30 E)"
proof -
  have "steps F 11 12 (\<lambda>w. shell E ''aws s3 ls --recursive $1'' [expand ''s3_output_path'' s3_output_path w] w)"
    by (rule steps_dep[where c="\<lambda>x. shell E ''aws s3 ls --recursive $1'' [x]"]) (rule steps_shell; simp add: kind_def)
  then show ?thesis unfolding cell30_def[abs_def] .
qed

lemma steps_cell17: "steps F 6 8 (cell17 E)"
  unfolding cell17_def Let_def upload_def
  apply (rule steps_bind[where mid=7])
     apply (rule steps_call_local; simp add: kind_def)
    apply (rule steps_seq[where mid=7])
       apply (rule steps_pure; simp)
      apply (rule steps_bind[where mid=8])
         apply (rule steps_call_local; simp add: kind_def)
        apply (rule steps_pure)
         apply (intro pure_intros; simp)
        apply simp_all
  done

lemma steps_cell21: "steps F 8 9 (cell21 E)"
  unfolding cell21_def Let_def
  apply (rule steps_bind[where mid=8])
     apply (rule steps_pure; simp add: pure_name)
    apply (rule steps_seq[where mid=9])
       apply (rule steps_call; simp add: kind_def)
      apply (rule steps_pure; simp)
     apply simp_all
  done

lemma steps_submit: "steps F 9 10 (submit E est inputs)"
  unfolding steps_def submit_def
  by (auto simp: kind_def split: prod.splits)

lemma steps_cell23: "steps F 9 10 (cell23 E)"
  unfolding cell23_def
  apply (rule steps_bind[where mid=9])
     apply (rule steps_pure; simp add: pure_name)
    apply (rule steps_bind[where mid=9])
       apply (rule steps_pure; simp add: pure_name)
      apply (rule steps_bind[where mid=9])
         apply (rule steps_pure; simp add: pure_name)
        apply (rule steps_submit)
       apply simp_all
  done

lemma steps_cell26: "steps F 10 11 (cell26 E)"
  unfolding cell26_def
  apply (rule steps_bind[where mid=10])
     apply (rule steps_pure; simp add: pure_name)
    apply (split option.split, intro conjI allI impI)
     apply (rule steps_pure; simp add: pure_raise)
    apply (rule steps_seq[where mid=10])
       apply (rule steps_pure; simp)
      apply (rule steps_bind[where mid=11])
         apply (rule steps_call; simp add: kind_def)
        apply (rule steps_pure; simp)
       apply simp_all
  done

lemma pure_cell27: "pure cell27"
  unfolding cell27_def
  by (intro pure_intros; simp)

lemma pure_cell29: "pure cell29"
  unfolding cell29_def Let_def
  by (intro pure_intros; simp)

lemma steps_cell31: "steps F 12 13 (cell31 E)"
  unfolding cell31_def
  apply (rule steps_bind[where mid=12])
     apply (rule steps_pure; simp add: pure_name)
    apply (rule steps_bind[where mid=13])
       apply (rule steps_call; simp add: kind_def)
      apply (rule steps_pure)
       apply (intro pure_intros; simp)
      apply simp_all
  done

lemma steps_cell32: "steps F 13 14 (cell32 E)"
  unfolding cell32_def
  apply (rule steps_bind[where mid=13])
     apply (rule steps_pure; simp add: pure_name)
    apply (rule steps_bind[where mid=14])
       apply (rule steps_call; simp add: kind_def)
      apply (rule steps_pure; simp add: pure_print)
     apply simp_all
  done

lemma steps_cell33: "steps F 14 16 (cell33 E)"
  unfolding cell33_def
  apply (rule steps_bind[where mid=14])
     apply (rule steps_pure; simp add: pure_name)
    apply (rule steps_bind[where mid=15])
       apply (rule steps_call; simp add: kind_def)
      apply (rule steps_bind[where mid=16])
         apply (rule steps_call; simp add: kind_def)
        apply (rule steps_pure; simp)
       apply simp_all
  done

lemma pure_cell34: "pure cell34"
  unfolding cell34_def
  by (intro pure_intros)

subsection \<open>No cell goes on after a failure\<close>


















section \<open>The dataset stager\<close>

lemma bind_Inr: "bind m f w = (Inr b, w2) \<longleftrightarrow> (\<exists>a w1. m w = (Inr a, w1) \<and> f a w1 = (Inr b, w2))"
  by (auto simp: bind_def split: prod.splits sum.splits)

lemma seq_Inr: "seq m n w = (Inr b, w2) \<longleftrightarrow> (\<exists>a w1. m w = (Inr a, w1) \<and> n w1 = (Inr b, w2))"
  by (simp add: seq_def bind_Inr)

lemma call_Inr: "call ev f w = (Inr a, w1) \<longleftrightarrow>
    (\<exists>r. f (remote w) = (Inr a, r) \<and> w1 = w\<lparr>remote := r, trace := trace w @ [ev]\<rparr>)"
  by (auto simp: call_def split: prod.splits sum.splits)

lemma makedirs_Inr: "makedirs E path w = (Inr u, w1) \<longleftrightarrow>
    normpath path \<notin> dom (files w) \<and> (normpath path \<in> dirs w \<or> io_error E (normpath path) = None) \<and>
    w1 = w\<lparr>trace := trace w @ [Makedirs path], dirs := insert (normpath path) (dirs w)\<rparr>"
  by (auto simp: makedirs_def failed_def Let_def insert_absorb split: option.splits)

lemma savez_Inr: "savez E fname kwds w = (Inr u, w1) \<longleftrightarrow>
    (let p = normpath (if endswith fname ''.npz'' then fname else fname @ ''.npz'') in
     p \<notin> dirs w \<and> (dirname p = [] \<or> dirname p \<in> dirs w) \<and> io_error E p = None \<and>
     write_error E p = None \<and>
     w1 = w\<lparr>trace := trace w @ [Savez fname], files := (files w)(p \<mapsto> Npz kwds)\<rparr>)"
  by (auto simp: savez_def failed_def Let_def split: option.splits)

lemma archive_names:
  "\<not> endswith ''./data/training'' ''.npz''" "\<not> endswith ''./data/validation'' ''.npz''"
  "dirname ''data/training.npz'' = ''data''" "dirname ''data/validation.npz'' = ''data''"
  by (simp_all add: endswith_def dirname_def)


lemma demo_stage:
  "cell9 demo_env fresh =
     (Inr (), fresh\<lparr>remote := 1,
        trace := [Load_data, Makedirs ''./data'', Savez ''./data/training'', Savez ''./data/validation''],
        dirs := {''data''},
        files := [''data/training.npz'' \<mapsto> Npz [(''image'', Images [[[0, 255]], [[3, 4]]]), (''label'', Labels [9, 2])],
                  ''data/validation.npz'' \<mapsto> Npz [(''image'', Images [[[7, 1]]]), (''label'', Labels [3])]]\<rparr>)"
  by (simp add: cell9_def bind_def seq_def call_def makedirs_def savez_def Let_def archive_names demo_env_def fresh_def)




text \<open>
  Claim C2. The dataset cell takes no input. It completes exactly when the loader returns the
  two splits and nothing in the way of the directory \<^verbatim>\<open>data\<close> or of the two files stops it,
  and then it has written two files and no other: \<^verbatim>\<open>data/training.npz\<close> and
  \<^verbatim>\<open>data/validation.npz\<close>, each the archive that maps \<^verbatim>\<open>image\<close> to the samples of its
  split and \<^verbatim>\<open>label\<close> to its labels.
\<close>

theorem stager_writes_two_archives:
  "cell9 E w = (Inr (), w') \<longleftrightarrow>
   (\<exists>x_train y_train x_val y_val r.
      load_data E (remote w) = (Inr ((x_train, y_train), (x_val, y_val)), r) \<and>
      ''data'' \<notin> dom (files w) \<and> (''data'' \<in> dirs w \<or> io_error E ''data'' = None) \<and>
      ''data/training.npz'' \<notin> dirs w \<and> io_error E ''data/training.npz'' = None \<and>
      write_error E ''data/training.npz'' = None \<and>
      ''data/validation.npz'' \<notin> dirs w \<and> io_error E ''data/validation.npz'' = None \<and>
      write_error E ''data/validation.npz'' = None \<and>
      w' = w\<lparr>remote := r,
             trace := trace w @ [Load_data, Makedirs ''./data'', Savez ''./data/training'',
                                 Savez ''./data/validation''],
             dirs := insert ''data'' (dirs w),
             files := (files w)
               (''data/training.npz'' \<mapsto> Npz [(''image'', Images x_train), (''label'', Labels y_train)],
                ''data/validation.npz'' \<mapsto> Npz [(''image'', Images x_val), (''label'', Labels y_val)])\<rparr>)"
  unfolding cell9_def
  by (auto simp: bind_Inr seq_Inr call_Inr makedirs_Inr savez_Inr archive_names Let_def)

theorem stager_writes_two_archives_witness:
  "cell9 demo_env fresh =
     (Inr (), fresh\<lparr>remote := 1,
        trace := [Load_data, Makedirs ''./data'', Savez ''./data/training'', Savez ''./data/validation''],
        dirs := {''data''},
        files := [''data/training.npz'' \<mapsto> Npz [(''image'', Images [[[0, 255]], [[3, 4]]]), (''label'', Labels [9, 2])],
                  ''data/validation.npz'' \<mapsto> Npz [(''image'', Images [[[7, 1]]]), (''label'', Labels [3])]]\<rparr>)"
  by (subst stager_writes_two_archives) (simp add: demo_env_def fresh_def)

section \<open>The status reader\<close>

lemma cell29_eval:
  "description w = Some d \<Longrightarrow>
   cell29 w =
     (case getitem (PDict d) ''DebugHookConfig'' of
        Inl e \<Rightarrow> (Inl e, w)
      | Inr hook \<Rightarrow>
          (case getitem hook ''S3OutputPath'' of
             Inl e \<Rightarrow> (Inl e, w)
           | Inr out \<Rightarrow>
               (case job_name w of
                  None \<Rightarrow> (Inl (NameError ''job_name''), w)
                | Some n \<Rightarrow>
                    (case add_str out n of
                       Inl e \<Rightarrow> (Inl e, w)
                     | Inr p \<Rightarrow>
                         (Inr (), w\<lparr>s3_output_path := Some (p @ ''/debug-output/''),
                                   stdout := stdout w @ [Out (PStr (p @ ''/debug-output/''))]\<rparr>)))))"
  by (simp add: cell29_def bind_def seq_def name_def lift_def assign_def print_def Let_def
      split: sum.splits option.splits)

lemma cell29_missing:
  assumes "description w = Some d" and "output_path_field d = None"
  shows "cell29 w =
     (Inl (case map_of d ''DebugHookConfig'' of
             None \<Rightarrow> KeyError ''DebugHookConfig''
           | Some (PDict h) \<Rightarrow> KeyError ''S3OutputPath''
           | Some _ \<Rightarrow> TypeError), w)"
  using assms(2) unfolding cell29_eval[OF assms(1)]
  by (auto simp: getitem_def output_path_field_def split: option.splits pyval.splits)

lemma cell29_path:
  assumes "description w = Some d" "output_path_field d = Some (PStr s)" "job_name w = Some n"
  shows "cell29 w =
     (Inr (), w\<lparr>s3_output_path := Some (s @ n @ ''/debug-output/''),
               stdout := stdout w @ [Out (PStr (s @ n @ ''/debug-output/''))]\<rparr>)"
  using assms(2,3) unfolding cell29_eval[OF assms(1)]
  by (auto simp: getitem_def add_str_def output_path_field_def split: option.splits pyval.splits)

lemma separator_iff: "(\<exists>pre. s @ t = pre @ ''/'' @ t) = endswith s ''/''"
proof
  assume "\<exists>pre. s @ t = pre @ ''/'' @ t"
  then obtain pre where "s @ t = (pre @ ''/'') @ t" by auto
  then have "s = pre @ ''/''" by (simp only: same_append_eq append_same_eq)
  then show "endswith s ''/''" by (simp add: endswith_def)
next
  assume e: "endswith s ''/''"
  then have "s = take (length s - 1) s @ ''/''"
    unfolding endswith_def by (metis append_take_drop_id length_Cons list.size(3) One_nat_def)
  then have "s @ t = take (length s - 1) s @ ''/'' @ t"
    by (metis append.assoc)
  then show "\<exists>pre. s @ t = pre @ ''/'' @ t" by blast
qed

lemma cell26_eval:
  "tf_estimator w = Some est \<Longrightarrow> latest_training_job est = Some n \<Longrightarrow>
   cell26 E w =
     (case describe_training_job E n (remote w) of
        (Inl e, r) \<Rightarrow>
          (Inl e, w\<lparr>job_name := Some n, remote := r, trace := trace w @ [Describe_training_job n],
                    failures := failures w @ [(Describe_training_job n, e)]\<rparr>)
      | (Inr d, r) \<Rightarrow>
          (Inr (), w\<lparr>job_name := Some n, remote := r, trace := trace w @ [Describe_training_job n],
                    description := Some d\<rparr>))"
  by (simp add: cell26_def bind_def seq_def name_def call_def assign_def
      split: prod.splits sum.splits)

lemma cell26_Inr:
  "cell26 E w = (Inr (), w1) \<longleftrightarrow>
   (\<exists>est n d r. tf_estimator w = Some est \<and> latest_training_job est = Some n \<and>
      describe_training_job E n (remote w) = (Inr d, r) \<and>
      w1 = w\<lparr>job_name := Some n, remote := r, trace := trace w @ [Describe_training_job n],
             description := Some d\<rparr>)"
proof (cases "tf_estimator w")
  case None
  then show ?thesis by (simp add: cell26_def bind_def name_def)
next
  case (Some est)
  show ?thesis
  proof (cases "latest_training_job est")
    case None
    with Some show ?thesis by (simp add: cell26_def bind_def name_def raise_def)
  next
    case (Some n)
    with \<open>tf_estimator w = Some est\<close> show ?thesis
      by (auto simp: cell26_eval split: prod.splits sum.splits)
  qed
qed

lemma cell26_trace:
  "cell26 E w = (res, w1) \<Longrightarrow>
   trace w1 = trace w \<or> (\<exists>n. trace w1 = trace w @ [Describe_training_job n])"
proof (cases "tf_estimator w")
  case None
  then show "cell26 E w = (res, w1) \<Longrightarrow> ?thesis" by (auto simp: cell26_def bind_def name_def)
next
  case (Some est)
  assume run: "cell26 E w = (res, w1)"
  show ?thesis
  proof (cases "latest_training_job est")
    case None
    with Some run show ?thesis by (auto simp: cell26_def bind_def name_def raise_def)
  next
    case (Some n)
    with \<open>tf_estimator w = Some est\<close> run show ?thesis
      by (auto simp: cell26_eval split: prod.splits sum.splits)
  qed
qed

lemma cell27_eval:
  "description w = Some d \<Longrightarrow>
   cell27 w =
     (case getitem (PDict d) ''DebugRuleEvaluationStatuses'' of
        Inl e \<Rightarrow> (Inl e, w)
      | Inr v \<Rightarrow>
          (case iterate v of
             Inl e \<Rightarrow> (Inl e, w)
           | Inr items \<Rightarrow>
               (case pop_fields items of
                  (err, items', out) \<Rightarrow>
                    (case err of None \<Rightarrow> Inr () | Some e \<Rightarrow> Inl e,
                     w\<lparr>stdout := stdout w @ map Out out,
                       description := Some (case v of
                          PList _ \<Rightarrow> AList.update ''DebugRuleEvaluationStatuses'' (PList items') d
                        | _ \<Rightarrow> d)\<rparr>))))"
  by (simp add: cell27_def bind_def seq_def name_def lift_def assign_def ret_def raise_def
      split: sum.splits option.splits prod.splits)


lemma pop_Inr:
  "pop v k = Inr v' \<longleftrightarrow> (\<exists>fs. v = PDict fs \<and> map_of fs k \<noteq> None \<and> v' = PDict (AList.delete k fs))"
  by (auto simp: pop_def split: pyval.splits option.splits)

lemma delete_two:
  "AList.delete b (AList.delete a fs) = [kv \<leftarrow> fs. fst kv \<noteq> a \<and> fst kv \<noteq> b]"
  by (induction fs) (auto simp: AList.delete_eq)

lemma pop_twice:
  assumes "a \<noteq> b"
  shows "(\<exists>s1. pop v a = Inr s1 \<and> pop s1 b = Inr v') \<longleftrightarrow>
         (\<exists>fs. v = PDict fs \<and> map_of fs a \<noteq> None \<and> map_of fs b \<noteq> None \<and>
               v' = PDict [kv \<leftarrow> fs. fst kv \<noteq> a \<and> fst kv \<noteq> b])"
  using assms by (auto simp: pop_Inr delete_two AList.delete_conv)

lemma pop_fields_None:
  "pop_fields items = (None, items', out) \<longleftrightarrow>
   out = items' \<and>
   list_all2 (\<lambda>st st'. \<exists>fs. st = PDict fs \<and> map_of fs ''LastModifiedTime'' \<noteq> None \<and>
                map_of fs ''RuleEvaluationJobArn'' \<noteq> None \<and>
                st' = PDict [kv \<leftarrow> fs. fst kv \<noteq> ''LastModifiedTime'' \<and> fst kv \<noteq> ''RuleEvaluationJobArn''])
     items items'"
proof (induction items arbitrary: items' out)
  case Nil
  then show ?case by auto
next
  case (Cons st rest)
  have ne: "''LastModifiedTime'' \<noteq> ''RuleEvaluationJobArn''" by simp
  have "pop_fields (st # rest) = (None, items', out) \<longleftrightarrow>
     (\<exists>s2 rest' o'. (\<exists>s1. pop st ''LastModifiedTime'' = Inr s1 \<and> pop s1 ''RuleEvaluationJobArn'' = Inr s2) \<and>
        pop_fields rest = (None, rest', o') \<and> items' = s2 # rest' \<and> out = s2 # o')"
    by (auto split: sum.splits prod.splits)
  also have "\<dots> \<longleftrightarrow> out = items' \<and>
     (\<exists>s2 rest'. (\<exists>fs. st = PDict fs \<and> map_of fs ''LastModifiedTime'' \<noteq> None \<and>
                map_of fs ''RuleEvaluationJobArn'' \<noteq> None \<and>
                s2 = PDict [kv \<leftarrow> fs. fst kv \<noteq> ''LastModifiedTime'' \<and> fst kv \<noteq> ''RuleEvaluationJobArn'']) \<and>
        list_all2 (\<lambda>st st'. \<exists>fs. st = PDict fs \<and> map_of fs ''LastModifiedTime'' \<noteq> None \<and>
                map_of fs ''RuleEvaluationJobArn'' \<noteq> None \<and>
                st' = PDict [kv \<leftarrow> fs. fst kv \<noteq> ''LastModifiedTime'' \<and> fst kv \<noteq> ''RuleEvaluationJobArn''])
          rest rest' \<and> items' = s2 # rest')"
    unfolding pop_twice[OF ne] Cons.IH by blast
  also have "\<dots> \<longleftrightarrow> out = items' \<and>
     list_all2 (\<lambda>st st'. \<exists>fs. st = PDict fs \<and> map_of fs ''LastModifiedTime'' \<noteq> None \<and>
                map_of fs ''RuleEvaluationJobArn'' \<noteq> None \<and>
                st' = PDict [kv \<leftarrow> fs. fst kv \<noteq> ''LastModifiedTime'' \<and> fst kv \<noteq> ''RuleEvaluationJobArn''])
       (st # rest) items'"
    by (auto simp: list_all2_Cons1)
  finally show ?case .
qed


lemma cell29_Inr:
  assumes "description w = Some d"
  shows "cell29 w = (Inr (), w') \<longleftrightarrow>
     (\<exists>s n. output_path_field d = Some (PStr s) \<and> job_name w = Some n \<and>
        w' = w\<lparr>s3_output_path := Some (s @ n @ ''/debug-output/''),
               stdout := stdout w @ [Out (PStr (s @ n @ ''/debug-output/''))]\<rparr>)"
  unfolding cell29_eval[OF assms]
  by (auto simp: getitem_def add_str_def output_path_field_def split: option.splits pyval.splits)

lemma output_path_field_update [simp]:
  "output_path_field (AList.update ''DebugRuleEvaluationStatuses'' x d) = output_path_field d"
  by (simp add: output_path_field_def AList.update_conv')

lemma cell27_keeps:
  assumes "description w = Some d" and "cell27 w = (res, w2)"
  shows "\<exists>d'. description w2 = Some d' \<and> output_path_field d' = output_path_field d \<and>
           s3_output_path w2 = s3_output_path w \<and> job_name w2 = job_name w \<and>
           trace w2 = trace w \<and> remote w2 = remote w"
  using assms(2) assms(1) unfolding cell27_eval[OF assms(1)]
  by (auto split: sum.splits prod.splits pyval.splits)

text \<open>
  Claim C5. On a snapshot with no output-path field (no \<^verbatim>\<open>DebugHookConfig\<close>, or one that is
  not a dictionary or has no \<^verbatim>\<open>S3OutputPath\<close>) the path cell raises (\<^verbatim>\<open>KeyError\<close> for the
  missing key, \<^verbatim>\<open>TypeError\<close> when the entry cannot be subscripted) and leaves the world as it
  was: no path is assigned or printed. So does the status reader as a whole when the one
  snapshot it fetches has no such field.
\<close>

theorem missing_output_path_raises:
  "(description w = Some d \<and> output_path_field d = None \<longrightarrow>
      cell29 w =
        (Inl (case map_of d ''DebugHookConfig'' of
                None \<Rightarrow> KeyError ''DebugHookConfig''
              | Some (PDict h) \<Rightarrow> KeyError ''S3OutputPath''
              | Some _ \<Rightarrow> TypeError), w)) \<and>
   (tf_estimator w = Some est \<and> latest_training_job est = Some n \<and>
    describe_training_job E n (remote w) = (Inr d, r) \<and> output_path_field d = None \<longrightarrow>
      (\<exists>e w'. status_reader E w = (Inl e, w') \<and> s3_output_path w' = s3_output_path w))"
proof (intro conjI impI)
  assume "description w = Some d \<and> output_path_field d = None"
  then show "cell29 w =
        (Inl (case map_of d ''DebugHookConfig'' of
                None \<Rightarrow> KeyError ''DebugHookConfig''
              | Some (PDict h) \<Rightarrow> KeyError ''S3OutputPath''
              | Some _ \<Rightarrow> TypeError), w)"
    using cell29_missing by blast
next
  assume a: "tf_estimator w = Some est \<and> latest_training_job est = Some n \<and>
    describe_training_job E n (remote w) = (Inr d, r) \<and> output_path_field d = None"
  define w1 where "w1 = w\<lparr>job_name := Some n, remote := r,
      trace := trace w @ [Describe_training_job n], description := Some d\<rparr>"
  have c26: "cell26 E w = (Inr (), w1)"
    using a by (simp add: cell26_eval w1_def)
  have d1: "description w1 = Some d" and s1: "s3_output_path w1 = s3_output_path w"
    by (simp_all add: w1_def)
  obtain res2 w2 where c27: "cell27 w1 = (res2, w2)" by (cases "cell27 w1")
  from cell27_keeps[OF d1 c27] a obtain d' where d2: "description w2 = Some d'"
    and none: "output_path_field d' = None" and s2: "s3_output_path w2 = s3_output_path w1"
    by auto
  show "\<exists>e w'. status_reader E w = (Inl e, w') \<and> s3_output_path w' = s3_output_path w"
  proof (cases res2)
    case (Inl e)
    then have "status_reader E w = (Inl e, w2)"
      by (simp add: status_reader_def c26 c27)
    then show ?thesis using s1 s2 by auto
  next
    case (Inr u)
    then have "status_reader E w = cell29 w2"
      by (simp add: status_reader_def c26 c27 split: prod.splits sum.splits)
    then show ?thesis using cell29_missing[OF d2 none] s1 s2 by auto
  qed
qed

theorem missing_output_path_raises_witness:
  "cell29 (fresh\<lparr>description := Some [(''TrainingJobName'', PStr ''job-1'')]\<rparr>) =
     (Inl (KeyError ''DebugHookConfig''), fresh\<lparr>description := Some [(''TrainingJobName'', PStr ''job-1'')]\<rparr>) \<and>
   fst (status_reader
        (demo_env\<lparr>describe_training_job := \<lambda>n r. (Inr [(''TrainingJobName'', PStr n), (''DebugRuleEvaluationStatuses'', PList [])], r)\<rparr>)
        (fresh\<lparr>tf_estimator := Some demo_estimator\<rparr>)) = Inl (KeyError ''DebugHookConfig'') \<and>
   s3_output_path (snd (status_reader
        (demo_env\<lparr>describe_training_job := \<lambda>n r. (Inr [(''TrainingJobName'', PStr n), (''DebugRuleEvaluationStatuses'', PList [])], r)\<rparr>)
        (fresh\<lparr>tf_estimator := Some demo_estimator\<rparr>))) = None"
proof -
  have run: "status_reader
        (demo_env\<lparr>describe_training_job := \<lambda>n r. (Inr [(''TrainingJobName'', PStr n), (''DebugRuleEvaluationStatuses'', PList [])], r)\<rparr>)
        (fresh\<lparr>tf_estimator := Some demo_estimator\<rparr>) =
      (Inl (KeyError ''DebugHookConfig''),
       fresh\<lparr>tf_estimator := Some demo_estimator, job_name := Some ''job-1'',
             trace := [Describe_training_job ''job-1''],
             description := Some [(''TrainingJobName'', PStr ''job-1''),
                                  (''DebugRuleEvaluationStatuses'', PList [])]\<rparr>)"
    by (simp add: status_reader_def cell26_def cell27_def cell29_def bind_def seq_def name_def
        call_def lift_def assign_def ret_def getitem_def iterate_def
        demo_env_def demo_estimator_def fresh_def)
  have first: "cell29 (fresh\<lparr>description := Some [(''TrainingJobName'', PStr ''job-1'')]\<rparr>) =
     (Inl (KeyError ''DebugHookConfig''), fresh\<lparr>description := Some [(''TrainingJobName'', PStr ''job-1'')]\<rparr>)"
    using missing_output_path_raises[where
        w = "fresh\<lparr>description := Some [(''TrainingJobName'', PStr ''job-1'')]\<rparr>" and
        d = "[(''TrainingJobName'', PStr ''job-1'')]"]
    by (simp add: output_path_field_def)
  have fetched: "tf_estimator (fresh\<lparr>tf_estimator := Some demo_estimator\<rparr>) = Some demo_estimator \<and>
      latest_training_job demo_estimator = Some ''job-1'' \<and>
      describe_training_job
        (demo_env\<lparr>describe_training_job := \<lambda>n r. (Inr [(''TrainingJobName'', PStr n), (''DebugRuleEvaluationStatuses'', PList [])], r)\<rparr>)
        ''job-1'' (remote (fresh\<lparr>tf_estimator := Some demo_estimator\<rparr>)) =
        (Inr [(''TrainingJobName'', PStr ''job-1''), (''DebugRuleEvaluationStatuses'', PList [])], 0) \<and>
      output_path_field [(''TrainingJobName'', PStr ''job-1''), (''DebugRuleEvaluationStatuses'', PList [])] = None"
    by (simp add: output_path_field_def fresh_def demo_estimator_def)
  have "\<exists>e w'. status_reader
        (demo_env\<lparr>describe_training_job := \<lambda>n r. (Inr [(''TrainingJobName'', PStr n), (''DebugRuleEvaluationStatuses'', PList [])], r)\<rparr>)
        (fresh\<lparr>tf_estimator := Some demo_estimator\<rparr>) = (Inl e, w') \<and>
      s3_output_path w' = s3_output_path (fresh\<lparr>tf_estimator := Some demo_estimator\<rparr>)"
    using missing_output_path_raises[where
        w = "fresh\<lparr>tf_estimator := Some demo_estimator\<rparr>" and est = demo_estimator and
        n = "''job-1''" and d = "[(''TrainingJobName'', PStr ''job-1''), (''DebugRuleEvaluationStatuses'', PList [])]" and r = 0 and
        E = "demo_env\<lparr>describe_training_job := \<lambda>n r. (Inr [(''TrainingJobName'', PStr n), (''DebugRuleEvaluationStatuses'', PList [])], r)\<rparr>"] fetched
    by blast
  then have second: "s3_output_path (snd (status_reader
        (demo_env\<lparr>describe_training_job := \<lambda>n r. (Inr [(''TrainingJobName'', PStr n), (''DebugRuleEvaluationStatuses'', PList [])], r)\<rparr>)
        (fresh\<lparr>tf_estimator := Some demo_estimator\<rparr>))) = None"
    by (auto simp: fresh_def)
  from first second run show ?thesis by simp
qed

text \<open>
  Claim C6. For a snapshot whose \<^verbatim>\<open>DebugHookConfig\<close> holds the string \<open>s\<close> under
  \<^verbatim>\<open>S3OutputPath\<close> and a job name \<open>n\<close>, the path cell assigns and prints exactly
  \<open>s @ n @ ''/debug-output/''\<close>. Nothing is put between \<open>s\<close> and \<open>n\<close>: the job name is
  preceded by a separator in the path exactly when \<open>s\<close> ends with one.
\<close>

theorem output_path_is_concatenation:
  assumes "description w = Some d"
    and "map_of d ''DebugHookConfig'' = Some (PDict h)"
    and "map_of h ''S3OutputPath'' = Some (PStr s)"
    and "job_name w = Some n"
  shows "cell29 w =
           (Inr (), w\<lparr>s3_output_path := Some (s @ n @ ''/debug-output/''),
                     stdout := stdout w @ [Out (PStr (s @ n @ ''/debug-output/''))]\<rparr>) \<and>
         ((\<exists>pre. s @ n @ ''/debug-output/'' = pre @ ''/'' @ n @ ''/debug-output/'') = endswith s ''/'')"
proof -
  have "output_path_field d = Some (PStr s)"
    using assms(2,3) by (simp add: output_path_field_def)
  then show ?thesis
    using cell29_path[OF assms(1) _ assms(4)] separator_iff[of s "n @ ''/debug-output/''"] by simp
qed

theorem output_path_is_concatenation_witness:
  "cell29 (fresh\<lparr>description := Some demo_description, job_name := Some ''job-1''\<rparr>) =
     (Inr (), fresh\<lparr>description := Some demo_description, job_name := Some ''job-1'',
                s3_output_path := Some ''s3://bucket/job-1/debug-output/'',
                stdout := [Out (PStr ''s3://bucket/job-1/debug-output/'')]\<rparr>) \<and>
   endswith ''s3://bucket/'' ''/''"
  using output_path_is_concatenation[of "fresh\<lparr>description := Some demo_description, job_name := Some ''job-1''\<rparr>"
      demo_description "[(''S3OutputPath'', PStr ''s3://bucket/'')]" "''s3://bucket/''" "''job-1''"]
  by (simp add: demo_description_def fresh_def endswith_def)

section \<open>The verdict projection and the single read\<close>

lemma cell27_Inr:
  assumes d: "description w = Some d"
    and sts: "map_of d ''DebugRuleEvaluationStatuses'' = Some (PList sts)"
  shows "cell27 w = (Inr (), w') \<longleftrightarrow>
     (\<exists>sts'. pop_fields sts = (None, sts', sts') \<and>
        w' = w\<lparr>stdout := stdout w @ map Out sts',
               description := Some (AList.update ''DebugRuleEvaluationStatuses'' (PList sts') d)\<rparr>)"
proof -
  obtain err items' out where pf: "pop_fields sts = (err, items', out)"
    by (cases "pop_fields sts")
  show ?thesis
  proof (cases err)
    case None
    with pf have "out = items'" by (simp add: pop_fields_None)
    with None pf show ?thesis
      unfolding cell27_eval[OF d] by (auto simp: getitem_def iterate_def sts)
  next
    case (Some e)
    with pf show ?thesis
      unfolding cell27_eval[OF d] by (simp add: getitem_def iterate_def sts)
  qed
qed

text \<open>
  Claim C10. On a snapshot whose rule-evaluation statuses are a list, the verdict cell
  completes exactly when every status is a dictionary that has both \<^verbatim>\<open>LastModifiedTime\<close> and
  \<^verbatim>\<open>RuleEvaluationJobArn\<close>; each status is then left in the snapshot without these two
  fields and with every other field as it was, in its place, nothing else of the snapshot
  or of the world changes apart from what the cell prints, and with at least one status the
  snapshot held locally is no longer the one that was fetched.
\<close>

theorem verdict_projection_strips_two_fields:
  assumes d: "description w = Some d"
    and sts: "map_of d ''DebugRuleEvaluationStatuses'' = Some (PList sts)"
  shows "(cell27 w = (Inr (), w') \<longleftrightarrow>
           (\<exists>sts'. length sts' = length sts \<and>
              (\<forall>i<length sts. \<exists>fs. sts ! i = PDict fs \<and>
                  map_of fs ''LastModifiedTime'' \<noteq> None \<and>
                  map_of fs ''RuleEvaluationJobArn'' \<noteq> None \<and>
                  sts' ! i = PDict [kv \<leftarrow> fs. fst kv \<noteq> ''LastModifiedTime'' \<and>
                                             fst kv \<noteq> ''RuleEvaluationJobArn'']) \<and>
              w' = w\<lparr>stdout := stdout w @ map Out sts',
                     description :=
                       Some (AList.update ''DebugRuleEvaluationStatuses'' (PList sts') d)\<rparr>)) \<and>
         (cell27 w = (Inr (), w') \<and> sts \<noteq> [] \<longrightarrow> description w' \<noteq> description w)"
proof -
  let ?P = "\<lambda>st st'. \<exists>fs. st = PDict fs \<and> map_of fs ''LastModifiedTime'' \<noteq> None \<and>
                map_of fs ''RuleEvaluationJobArn'' \<noteq> None \<and>
                st' = PDict [kv \<leftarrow> fs. fst kv \<noteq> ''LastModifiedTime'' \<and> fst kv \<noteq> ''RuleEvaluationJobArn'']"
  have run: "cell27 w = (Inr (), w') \<longleftrightarrow>
     (\<exists>sts'. list_all2 ?P sts sts' \<and>
        w' = w\<lparr>stdout := stdout w @ map Out sts',
               description := Some (AList.update ''DebugRuleEvaluationStatuses'' (PList sts') d)\<rparr>)"
    unfolding cell27_Inr[OF d sts] pop_fields_None by simp
  have first: "cell27 w = (Inr (), w') \<longleftrightarrow>
           (\<exists>sts'. length sts' = length sts \<and>
              (\<forall>i<length sts. ?P (sts ! i) (sts' ! i)) \<and>
              w' = w\<lparr>stdout := stdout w @ map Out sts',
                     description :=
                       Some (AList.update ''DebugRuleEvaluationStatuses'' (PList sts') d)\<rparr>)"
    unfolding run list_all2_conv_all_nth by (auto simp: eq_commute[of "length sts"])
  have second: "description w' \<noteq> description w" if r: "cell27 w = (Inr (), w')" and ne: "sts \<noteq> []"
  proof
    assume same: "description w' = description w"
    from r obtain sts' where all: "list_all2 ?P sts sts'"
      and w': "description w' = Some (AList.update ''DebugRuleEvaluationStatuses'' (PList sts') d)"
      unfolding run by auto
    from same w' d have "map_of (AList.update ''DebugRuleEvaluationStatuses'' (PList sts') d)
        ''DebugRuleEvaluationStatuses'' = map_of d ''DebugRuleEvaluationStatuses''"
      by simp
    then have eq: "sts' = sts" by (simp add: AList.update_conv' sts)
    from ne obtain st rest where c: "sts = st # rest" by (cases sts) auto
    with all eq have "?P st st" by auto
    then obtain fs :: "(string \<times> pyval) list" where has: "map_of fs ''LastModifiedTime'' \<noteq> None"
      and unchanged: "fs = [kv \<leftarrow> fs. fst kv \<noteq> ''LastModifiedTime'' \<and> fst kv \<noteq> ''RuleEvaluationJobArn'']"
      by auto
    from has obtain v where "(''LastModifiedTime'', v) \<in> set fs"
      by (auto dest: map_of_SomeD)
    then have "(''LastModifiedTime'', v) \<in> set [kv \<leftarrow> fs. fst kv \<noteq> ''LastModifiedTime'' \<and> fst kv \<noteq> ''RuleEvaluationJobArn'']"
      using unchanged by simp
    then show False by simp
  qed
  from first second show ?thesis by blast
qed


lemma demo_verdicts:
  "cell27 (fresh\<lparr>description := Some demo_description\<rparr>) =
     (Inr (), fresh\<lparr>
        stdout := [Out (PDict [(''RuleConfigurationName'', PStr ''LossNotDecreasing''),
                               (''RuleEvaluationStatus'', PStr ''InProgress'')]),
                   Out (PDict [(''RuleConfigurationName'', PStr ''Overfit''),
                               (''RuleEvaluationStatus'', PStr ''NoIssuesFound'')])],
        description := Some
          [(''TrainingJobName'', PStr ''job-1''),
           (''DebugHookConfig'', PDict [(''S3OutputPath'', PStr ''s3://bucket/'')]),
           (''DebugRuleEvaluationStatuses'',
              PList [PDict [(''RuleConfigurationName'', PStr ''LossNotDecreasing''),
                            (''RuleEvaluationStatus'', PStr ''InProgress'')],
                     PDict [(''RuleConfigurationName'', PStr ''Overfit''),
                            (''RuleEvaluationStatus'', PStr ''NoIssuesFound'')]])]\<rparr>)"
  by (simp add: cell27_def bind_def seq_def name_def lift_def assign_def ret_def getitem_def
      iterate_def pop_def AList.delete_eq demo_description_def fresh_def)

theorem verdict_projection_strips_two_fields_witness:
  "cell27 (fresh\<lparr>description := Some demo_description\<rparr>) =
     (Inr (), fresh\<lparr>
        stdout := [Out (PDict [(''RuleConfigurationName'', PStr ''LossNotDecreasing''),
                               (''RuleEvaluationStatus'', PStr ''InProgress'')]),
                   Out (PDict [(''RuleConfigurationName'', PStr ''Overfit''),
                               (''RuleEvaluationStatus'', PStr ''NoIssuesFound'')])],
        description := Some
          [(''TrainingJobName'', PStr ''job-1''),
           (''DebugHookConfig'', PDict [(''S3OutputPath'', PStr ''s3://bucket/'')]),
           (''DebugRuleEvaluationStatuses'',
              PList [PDict [(''RuleConfigurationName'', PStr ''LossNotDecreasing''),
                            (''RuleEvaluationStatus'', PStr ''InProgress'')],
                     PDict [(''RuleConfigurationName'', PStr ''Overfit''),
                            (''RuleEvaluationStatus'', PStr ''NoIssuesFound'')]])]\<rparr>) \<and>
   description (snd (cell27 (fresh\<lparr>description := Some demo_description\<rparr>))) \<noteq> Some demo_description"
proof -
  have d: "description (fresh\<lparr>description := Some demo_description\<rparr>) = Some demo_description"
    by simp
  have sts: "map_of demo_description ''DebugRuleEvaluationStatuses'' =
      Some (PList [PDict [(''RuleConfigurationName'', PStr ''LossNotDecreasing''),
                       (''RuleEvaluationJobArn'', PStr ''arn:rule-1''),
                       (''RuleEvaluationStatus'', PStr ''InProgress''),
                       (''LastModifiedTime'', PTime 1575331200)],
                PDict [(''RuleConfigurationName'', PStr ''Overfit''),
                       (''RuleEvaluationJobArn'', PStr ''arn:rule-2''),
                       (''RuleEvaluationStatus'', PStr ''NoIssuesFound''),
                       (''LastModifiedTime'', PTime 1575331260)]])"
    by (simp add: demo_description_def)
  show ?thesis
    using verdict_projection_strips_two_fields[OF d sts,
        of "snd (cell27 (fresh\<lparr>description := Some demo_description\<rparr>))"]
    by (simp add: demo_verdicts)
qed

lemma run_all_Cons_Inr:
  "run_all (c # cs) w = (Inr u, w') \<longleftrightarrow> (\<exists>w1. c w = (Inr (), w1) \<and> run_all cs w1 = (Inr u, w'))"
  by (auto split: prod.splits sum.splits)

lemma status_reader_Inr:
  "status_reader E w = (Inr (), w') \<longleftrightarrow>
   (\<exists>w1 w2. cell26 E w = (Inr (), w1) \<and> cell27 w1 = (Inr (), w2) \<and> cell29 w2 = (Inr (), w'))"
  unfolding status_reader_def run_all_Cons_Inr by auto

lemma status_reader_trace:
  assumes "status_reader E w = (res, w2)"
  shows "trace w2 = trace w \<or> (\<exists>n. trace w2 = trace w @ [Describe_training_job n])"
proof -
  obtain r1 w1 where c26: "cell26 E w = (r1, w1)" by (cases "cell26 E w")
  obtain r2 w2' where c27: "cell27 w1 = (r2, w2')" by (cases "cell27 w1")
  obtain r3 w3 where c29: "cell29 w2' = (r3, w3)" by (cases "cell29 w2'")
  have t1: "trace w1 = trace w \<or> (\<exists>n. trace w1 = trace w @ [Describe_training_job n])"
    using cell26_trace[OF c26] .
  have t2: "trace w2' = trace w1" using pure_cell27 c27 unfolding pure_def by blast
  have t3: "trace w3 = trace w2'" using pure_cell29 c29 unfolding pure_def by blast
  have "w2 = w1 \<or> w2 = w2' \<or> w2 = w3"
    using assms c26 c27 c29
    by (auto simp: status_reader_def split: sum.splits)
  with t1 t2 t3 show ?thesis by auto
qed

lemma getitem_Inr: "getitem (PDict d) k = Inr v \<longleftrightarrow> map_of d k = Some v"
  by (auto simp: getitem_def split: option.splits)

lemma verdicts_of_statuses:
  assumes it: "iterate v = Inr items" and pf: "pop_fields items = (None, verdicts, out)"
  shows "(\<exists>sts. v = PList sts \<and> length verdicts = length sts \<and>
            (\<forall>i<length sts. \<exists>fs. sts ! i = PDict fs \<and>
                map_of fs ''LastModifiedTime'' \<noteq> None \<and>
                map_of fs ''RuleEvaluationJobArn'' \<noteq> None \<and>
                verdicts ! i = PDict [kv \<leftarrow> fs. fst kv \<noteq> ''LastModifiedTime'' \<and>
                                              fst kv \<noteq> ''RuleEvaluationJobArn''])) \<or>
         ((v = PStr [] \<or> v = PDict []) \<and> verdicts = [])"
proof (cases v)
  case (PList sts)
  with it have "items = sts" by (simp add: iterate_def)
  with pf PList show ?thesis
    unfolding pop_fields_None list_all2_conv_all_nth by auto
next
  case (PStr str)
  show ?thesis
  proof (cases str)
    case Nil
    with PStr it pf show ?thesis by (auto simp: iterate_def)
  next
    case (Cons c cs)
    with PStr it have "items = PStr [c] # map (\<lambda>c. PStr [c]) cs" by (simp add: iterate_def)
    with pf show ?thesis by (simp add: pop_def)
  qed
next
  case (PDict kvs)
  show ?thesis
  proof (cases kvs)
    case Nil
    with PDict it pf show ?thesis by (auto simp: iterate_def)
  next
    case (Cons kv rest)
    with PDict it obtain more where "items = PStr (fst kv) # more"
      by (auto simp: iterate_def split: prod.splits)
    with pf show ?thesis by (simp add: pop_def)
  qed
qed (use it in \<open>simp_all add: iterate_def\<close>)

text \<open>
  Claim C7. A completing run of the status reader has made one call of
  \<^verbatim>\<open>describe_training_job\<close>, for the job of the estimator, and both of its results come from
  the snapshot \<open>d\<close> of that call. The verdicts it prints are the rule-evaluation statuses of
  \<open>d\<close>, one for each and in their order, each without \<^verbatim>\<open>LastModifiedTime\<close> and
  \<^verbatim>\<open>RuleEvaluationJobArn\<close> and with its other fields as they are in \<open>d\<close> (there is none to
  print only when \<open>d\<close> has none: an empty list, or an empty string or dictionary in its
  place). The path it assigns and prints is the output-path field of \<open>d\<close> followed by the job
  name and \<^verbatim>\<open>/debug-output/\<close>. A run that ends in an exception has made that call once or not
  at all: there is no loop around it.
\<close>

theorem status_reader_reads_once:
  "(status_reader E w = (Inr (), w') \<longrightarrow>
      (\<exists>est n d r verdicts s.
         tf_estimator w = Some est \<and> latest_training_job est = Some n \<and>
         describe_training_job E n (remote w) = (Inr d, r) \<and>
         trace w' = trace w @ [Describe_training_job n] \<and> remote w' = r \<and>
         (\<exists>v. map_of d ''DebugRuleEvaluationStatuses'' = Some v \<and>
            ((\<exists>sts. v = PList sts \<and> length verdicts = length sts \<and>
                (\<forall>i<length sts. \<exists>fs. sts ! i = PDict fs \<and>
                    map_of fs ''LastModifiedTime'' \<noteq> None \<and>
                    map_of fs ''RuleEvaluationJobArn'' \<noteq> None \<and>
                    verdicts ! i = PDict [kv \<leftarrow> fs. fst kv \<noteq> ''LastModifiedTime'' \<and>
                                                  fst kv \<noteq> ''RuleEvaluationJobArn''])) \<or>
             ((v = PStr [] \<or> v = PDict []) \<and> verdicts = []))) \<and>
         output_path_field d = Some (PStr s) \<and>
         stdout w' = stdout w @ map Out verdicts @ [Out (PStr (s @ n @ ''/debug-output/''))] \<and>
         s3_output_path w' = Some (s @ n @ ''/debug-output/''))) \<and>
   (status_reader E w = (res, w2) \<longrightarrow>
      trace w2 = trace w \<or> (\<exists>n. trace w2 = trace w @ [Describe_training_job n]))"
proof (intro conjI impI)
  assume run: "status_reader E w = (Inr (), w')"
  then obtain w1 w2' where c26: "cell26 E w = (Inr (), w1)" and c27: "cell27 w1 = (Inr (), w2')"
    and c29: "cell29 w2' = (Inr (), w')"
    unfolding status_reader_Inr by blast
  from c26 obtain est n d r where est: "tf_estimator w = Some est"
    "latest_training_job est = Some n" "describe_training_job E n (remote w) = (Inr d, r)"
    and w1: "w1 = w\<lparr>job_name := Some n, remote := r,
        trace := trace w @ [Describe_training_job n], description := Some d\<rparr>"
    unfolding cell26_Inr by blast
  have d1: "description w1 = Some d" by (simp add: w1)
  from c27 obtain v items items' out where v: "getitem (PDict d) ''DebugRuleEvaluationStatuses'' = Inr v"
    and it: "iterate v = Inr items" and pf: "pop_fields items = (None, items', out)"
    and w2': "w2' = w1\<lparr>stdout := stdout w1 @ map Out out,
        description := Some (case v of
            PList _ \<Rightarrow> AList.update ''DebugRuleEvaluationStatuses'' (PList items') d
          | _ \<Rightarrow> d)\<rparr>"
    unfolding cell27_eval[OF d1]
    by (auto split: sum.splits prod.splits option.splits)
  from pf have out: "out = items'" by (simp add: pop_fields_None)
  from v have field: "map_of d ''DebugRuleEvaluationStatuses'' = Some v"
    by (simp add: getitem_Inr)
  note shape = verdicts_of_statuses[OF it pf]
  define d' where "d' = (case v of
            PList _ \<Rightarrow> AList.update ''DebugRuleEvaluationStatuses'' (PList items') d
          | _ \<Rightarrow> d)"
  have d2: "description w2' = Some d'" by (simp add: w2' d'_def)
  have same: "output_path_field d' = output_path_field d"
    by (simp add: d'_def split: pyval.splits)
  from c29 obtain s n' where s: "output_path_field d' = Some (PStr s)" and n': "job_name w2' = Some n'"
    and w': "w' = w2'\<lparr>s3_output_path := Some (s @ n' @ ''/debug-output/''),
               stdout := stdout w2' @ [Out (PStr (s @ n' @ ''/debug-output/''))]\<rparr>"
    unfolding cell29_Inr[OF d2] by blast
  have n: "n' = n" using n' by (simp add: w2' w1)
  have ends: "trace w' = trace w @ [Describe_training_job n]" "remote w' = r"
    "stdout w' = stdout w @ map Out items' @ [Out (PStr (s @ n @ ''/debug-output/''))]"
    "s3_output_path w' = Some (s @ n @ ''/debug-output/'')"
    by (simp_all add: w' w2' w1 n out)
  have path: "output_path_field d = Some (PStr s)" using s same by simp
  have verdicts: "(\<exists>v. map_of d ''DebugRuleEvaluationStatuses'' = Some v \<and>
            ((\<exists>sts. v = PList sts \<and> length items' = length sts \<and>
                (\<forall>i<length sts. \<exists>fs. sts ! i = PDict fs \<and>
                    map_of fs ''LastModifiedTime'' \<noteq> None \<and>
                    map_of fs ''RuleEvaluationJobArn'' \<noteq> None \<and>
                    items' ! i = PDict [kv \<leftarrow> fs. fst kv \<noteq> ''LastModifiedTime'' \<and>
                                                  fst kv \<noteq> ''RuleEvaluationJobArn''])) \<or>
             ((v = PStr [] \<or> v = PDict []) \<and> items' = [])))"
    using field shape by blast
  show "\<exists>est n d r verdicts s.
         tf_estimator w = Some est \<and> latest_training_job est = Some n \<and>
         describe_training_job E n (remote w) = (Inr d, r) \<and>
         trace w' = trace w @ [Describe_training_job n] \<and> remote w' = r \<and>
         (\<exists>v. map_of d ''DebugRuleEvaluationStatuses'' = Some v \<and>
            ((\<exists>sts. v = PList sts \<and> length verdicts = length sts \<and>
                (\<forall>i<length sts. \<exists>fs. sts ! i = PDict fs \<and>
                    map_of fs ''LastModifiedTime'' \<noteq> None \<and>
                    map_of fs ''RuleEvaluationJobArn'' \<noteq> None \<and>
                    verdicts ! i = PDict [kv \<leftarrow> fs. fst kv \<noteq> ''LastModifiedTime'' \<and>
                                                  fst kv \<noteq> ''RuleEvaluationJobArn''])) \<or>
             ((v = PStr [] \<or> v = PDict []) \<and> verdicts = []))) \<and>
         output_path_field d = Some (PStr s) \<and>
         stdout w' = stdout w @ map Out verdicts @ [Out (PStr (s @ n @ ''/debug-output/''))] \<and>
         s3_output_path w' = Some (s @ n @ ''/debug-output/'')"
    using est ends path verdicts
    by (intro exI[of _ est] exI[of _ n] exI[of _ d] exI[of _ r] exI[of _ items'] exI[of _ s] conjI)
next
  assume "status_reader E w = (res, w2)"
  then show "trace w2 = trace w \<or> (\<exists>n. trace w2 = trace w @ [Describe_training_job n])"
    by (rule status_reader_trace)
qed

lemma demo_status:
  "status_reader demo_env (fresh\<lparr>tf_estimator := Some demo_estimator\<rparr>) =
     (Inr (), fresh\<lparr>tf_estimator := Some demo_estimator, job_name := Some ''job-1'', remote := 1,
        trace := [Describe_training_job ''job-1''],
        stdout := [Out (PDict [(''RuleConfigurationName'', PStr ''LossNotDecreasing''),
                               (''RuleEvaluationStatus'', PStr ''InProgress'')]),
                   Out (PDict [(''RuleConfigurationName'', PStr ''Overfit''),
                               (''RuleEvaluationStatus'', PStr ''NoIssuesFound'')]),
                   Out (PStr ''s3://bucket/job-1/debug-output/'')],
        description := Some
          [(''TrainingJobName'', PStr ''job-1''),
           (''DebugHookConfig'', PDict [(''S3OutputPath'', PStr ''s3://bucket/'')]),
           (''DebugRuleEvaluationStatuses'',
              PList [PDict [(''RuleConfigurationName'', PStr ''LossNotDecreasing''),
                            (''RuleEvaluationStatus'', PStr ''InProgress'')],
                     PDict [(''RuleConfigurationName'', PStr ''Overfit''),
                            (''RuleEvaluationStatus'', PStr ''NoIssuesFound'')]])],
        s3_output_path := Some ''s3://bucket/job-1/debug-output/''\<rparr>)"
  by (simp add: status_reader_def cell26_def cell27_def cell29_def bind_def seq_def name_def
      call_def lift_def assign_def ret_def print_def getitem_def iterate_def pop_def add_str_def
      AList.delete_eq demo_description_def demo_env_def demo_estimator_def fresh_def Let_def)

theorem status_reader_reads_once_witness:
  "status_reader demo_env (fresh\<lparr>tf_estimator := Some demo_estimator\<rparr>) =
     (Inr (), snd (status_reader demo_env (fresh\<lparr>tf_estimator := Some demo_estimator\<rparr>))) \<and>
   trace (snd (status_reader demo_env (fresh\<lparr>tf_estimator := Some demo_estimator\<rparr>))) =
     [Describe_training_job ''job-1''] \<and>
   s3_output_path (snd (status_reader demo_env (fresh\<lparr>tf_estimator := Some demo_estimator\<rparr>))) =
     Some ''s3://bucket/job-1/debug-output/'' \<and>
   stdout (snd (status_reader demo_env (fresh\<lparr>tf_estimator := Some demo_estimator\<rparr>))) =
     [Out (PDict [(''RuleConfigurationName'', PStr ''LossNotDecreasing''),
                  (''RuleEvaluationStatus'', PStr ''InProgress'')]),
      Out (PDict [(''RuleConfigurationName'', PStr ''Overfit''),
                  (''RuleEvaluationStatus'', PStr ''NoIssuesFound'')]),
      Out (PStr ''s3://bucket/job-1/debug-output/'')]"
  using status_reader_reads_once[where E = demo_env and
      w = "fresh\<lparr>tf_estimator := Some demo_estimator\<rparr>" and
      w' = "snd (status_reader demo_env (fresh\<lparr>tf_estimator := Some demo_estimator\<rparr>))"]
  by (simp add: demo_status)

section \<open>Running the notebook\<close>

lemma run_all_Cons_seq: "run_all (c # cs) = seq c (run_all cs)"
  by (rule ext) (simp add: seq_def bind_def split: prod.splits sum.splits)

lemma steps_nil: "steps F k k (run_all [])"
  unfolding steps_def by simp

lemma steps_cons:
  "steps F lo mid c \<Longrightarrow> steps F mid hi (run_all cs) \<Longrightarrow> lo \<le> mid \<Longrightarrow> mid \<le> hi \<Longrightarrow>
   steps F lo hi (run_all (c # cs))"
  unfolding run_all_Cons_seq by (rule steps_seq)

lemma steps_rest:
  "steps F 4 16 (run_all [cell10 E, cell12, cell13 E, cell17 E, cell21 E, cell23 E, cell26 E,
      cell27, cell29, cell30 E, cell31 E, cell32 E, cell33 E, cell34])"
  apply (rule steps_cons[where mid=5], rule steps_cell10)
    apply (rule steps_cons[where mid=5], rule steps_cell12)
      apply (rule steps_cons[where mid=6], rule steps_cell13)
        apply (rule steps_cons[where mid=8], rule steps_cell17)
          apply (rule steps_cons[where mid=9], rule steps_cell21)
            apply (rule steps_cons[where mid=10], rule steps_cell23)
              apply (rule steps_cons[where mid=11], rule steps_cell26)
                apply (rule steps_cons[where mid=11], rule steps_pure, rule pure_cell27, simp)
                  apply (rule steps_cons[where mid=11], rule steps_pure, rule pure_cell29, simp)
                    apply (rule steps_cons[where mid=12], rule steps_cell30)
                      apply (rule steps_cons[where mid=13], rule steps_cell31)
                        apply (rule steps_cons[where mid=14], rule steps_cell32)
                          apply (rule steps_cons[where mid=16], rule steps_cell33)
                            apply (rule steps_cons[where mid=16], rule steps_pure, rule pure_cell34, simp)
                              apply (rule steps_nil)
                             apply simp_all
  done

































lemma cell9_trace:
  "cell9 E w = (Inr (), w1) \<Longrightarrow>
   trace w1 = trace w @ [Load_data, Makedirs ''./data'', Savez ''./data/training'',
                         Savez ''./data/validation'']"
  unfolding cell9_def
  by (auto simp: bind_Inr seq_Inr call_Inr makedirs_Inr savez_Inr archive_names Let_def)

lemma later_not_write: "4 \<le> kind ev \<Longrightarrow> \<not> is_write ev"
  by (cases ev) (auto simp: kind_def split: if_splits)

lemma notebook_after_stager:
  "cell9 E w = (Inr (), w1) \<Longrightarrow>
   run_all (notebook E) w =
     run_all [cell10 E, cell12, cell13 E, cell17 E, cell21 E, cell23 E, cell26 E,
              cell27, cell29, cell30 E, cell31 E, cell32 E, cell33 E, cell34] w1"
  by (simp add: notebook_def)

text \<open>The run of the notebook in the concrete environment completes.\<close>

lemma demo_run:
  "fst (run_all (notebook demo_env) fresh) = Inr () \<and>
   trace (snd (run_all (notebook demo_env) fresh)) =
     [Load_data, Makedirs ''./data'', Savez ''./data/training'', Savez ''./data/validation'',
      Sh ''ls -l data'' [], Sh ''pygmentize $1'' [''/root/aim410/mnist_keras_tf.py''],
      Upload_data ''data/training.npz'' ''keras-fashion-mnist/training'',
      Upload_data ''data/validation.npz'' ''keras-fashion-mnist/validation'',
      TensorFlow_init (spec demo_estimator),
      Fit [(''training'', ''s3://bucket/keras-fashion-mnist/training''),
           (''validation'', ''s3://bucket/keras-fashion-mnist/validation'')],
      Describe_training_job ''job-1'',
      Sh ''aws s3 ls --recursive $1'' [''s3://bucket/job-1/debug-output/''],
      Create_trial ''s3://bucket/job-1/debug-output/'', Tensor_names 1, Tensor 1 ''val_loss'',
      Values 2]"
  by (simp add: notebook_def cell9_def cell10_def cell12_def cell13_def cell17_def cell21_def
      cell23_def cell26_def cell27_def cell29_def cell30_def cell31_def cell32_def cell33_def
      cell34_def submit_def upload_def shell_def expand_def bind_def seq_def
      call_def call_local_def makedirs_def savez_def assign_def print_def display_def name_def
      lift_def ret_def getitem_def iterate_def pop_def add_str_def AList.delete_eq
      Let_def archive_names demo_description_def demo_env_def demo_estimator_def fresh_def)

text \<open>
  Claim C9. In a run of the notebook in which the dataset cell completes, the local writes
  of the whole run are the creation of the directory and one write of each archive, all in
  the dataset cell; the local files and directories at the end of the run, completed or
  not, are those the dataset cell left. The upload cell, run in any world, leaves the local
  files and directories as they were: it hands them to the SDK's upload to read.
\<close>

theorem archives_written_once:
  assumes run: "run_all (notebook E) w = (res, w2)"
    and staged: "cell9 E w = (Inr (), w1)"
  shows "(\<exists>evs. trace w2 = trace w @ evs \<and>
            filter is_write evs =
              [Makedirs ''./data'', Savez ''./data/training'', Savez ''./data/validation'']) \<and>
         files w2 = files w1 \<and> dirs w2 = dirs w1 \<and>
         (cell17 E u = (res', u') \<longrightarrow> files u' = files u \<and> dirs u' = dirs u)"
proof -
  from run staged have rest: "run_all [cell10 E, cell12, cell13 E, cell17 E, cell21 E, cell23 E,
      cell26 E, cell27, cell29, cell30 E, cell31 E, cell32 E, cell33 E, cell34] w1 = (res, w2)"
    by (simp add: notebook_after_stager)
  from steps_rest[of True E] rest obtain evs where keep: "files w2 = files w1" "dirs w2 = dirs w1"
    and evs: "trace w2 = trace w1 @ evs" "\<forall>ev\<in>set evs. 4 \<le> kind ev"
    unfolding steps_def by blast
  from evs(2) have "filter is_write evs = []"
    by (auto simp: filter_empty_conv later_not_write)
  then have "trace w2 = trace w @ ([Load_data, Makedirs ''./data'', Savez ''./data/training'',
        Savez ''./data/validation''] @ evs) \<and>
      filter is_write ([Load_data, Makedirs ''./data'', Savez ''./data/training'',
        Savez ''./data/validation''] @ evs) =
        [Makedirs ''./data'', Savez ''./data/training'', Savez ''./data/validation'']"
    using evs(1) cell9_trace[OF staged] by simp
  then have first: "\<exists>evs. trace w2 = trace w @ evs \<and>
            filter is_write evs =
              [Makedirs ''./data'', Savez ''./data/training'', Savez ''./data/validation'']"
    by blast
  have "cell17 E u = (res', u') \<longrightarrow> files u' = files u \<and> dirs u' = dirs u"
    using steps_cell17[of True E] unfolding steps_def by blast
  with first keep show ?thesis by simp
qed

theorem archives_written_once_witness:
  "fst (run_all (notebook demo_env) fresh) = Inr () \<and>
   filter is_write (trace (snd (run_all (notebook demo_env) fresh))) =
     [Makedirs ''./data'', Savez ''./data/training'', Savez ''./data/validation''] \<and>
   files (snd (run_all (notebook demo_env) fresh)) =
     [''data/training.npz'' \<mapsto> Npz [(''image'', Images [[[0, 255]], [[3, 4]]]), (''label'', Labels [9, 2])],
      ''data/validation.npz'' \<mapsto> Npz [(''image'', Images [[[7, 1]]]), (''label'', Labels [3])]] \<and>
   dirs (snd (run_all (notebook demo_env) fresh)) = {''data''} \<and>
   files (snd (cell17 demo_env (snd (cell9 demo_env fresh)))) = files (snd (cell9 demo_env fresh)) \<and>
   dirs (snd (cell17 demo_env (snd (cell9 demo_env fresh)))) = dirs (snd (cell9 demo_env fresh))"
  using archives_written_once[OF _ demo_stage, where
      res = "fst (run_all (notebook demo_env) fresh)" and
      ?w2.0 = "snd (run_all (notebook demo_env) fresh)" and
      u = "snd (cell9 demo_env fresh)" and
      res' = "fst (cell17 demo_env (snd (cell9 demo_env fresh)))" and
      u' = "snd (cell17 demo_env (snd (cell9 demo_env fresh)))"] demo_run
  by (auto simp: fresh_def)

end
